theory Spec2Isabelle
  imports Main "HOL-Library.Word" "HOL-Library.Signed_Division"
begin

section \<open>Enumerations, errors and results\<close>

text \<open>
  The two enumerations of \<^verbatim>\<open>LAPACKSupport\<close>, with the values that
  \<^verbatim>\<open>create_HDF5_state_enum_id\<close> and \<^verbatim>\<open>create_HDF5_property_enum_id\<close> insert into
  the archive's enumeration types, in that order.
\<close>

datatype State =
  cholesky | eigenvalues | inverse_matrix | inverse_svd | lu | matrix | svd | unusable

datatype Property =
  diagonal | general | hessenberg | lower_triangular | symmetric | upper_triangular

text \<open>
  Every \<^verbatim>\<open>Assert\<close> and \<^verbatim>\<open>AssertThrow\<close> of the source is a branch of the model that
  returns the exception as a value (\<open>Inl\<close>); the checks of \<^verbatim>\<open>Assert\<close> are those of a
  debug build.
\<close>

datatype error =
    ExcMessage string
  | ExcDimensionMismatch int int
  | ExcIndexRange
  | ExcErrorCode string int
  | ExcMPI int
  | ExcInternalError
  | ExcIO

section \<open>Block-cyclic layout\<close>

text \<open>
  Modelled from the spec: the index routines \<^verbatim>\<open>indxl2g_\<close>, \<^verbatim>\<open>indxg2p_\<close>,
  \<^verbatim>\<open>indxg2l_\<close> and \<^verbatim>\<open>numroc_\<close> of the linear-algebra kernel library are called by
  the source but are not part of it. They follow section 4.1: the blocks of \<open>NB\<close> indices
  are dealt cyclically to the \<open>NPROCS\<close> coordinates, starting at \<open>ISRCPROC\<close>; indices are
  1-based, as the source's \<^verbatim>\<open>loc_row+1\<close> and \<^verbatim>\<open>- 1\<close> show. Their division and
  remainder truncate towards zero (\<open>sdiv\<close>, \<open>smod\<close>).
\<close>

definition indxl2g :: "int \<Rightarrow> int \<Rightarrow> int \<Rightarrow> int \<Rightarrow> int \<Rightarrow> int" where
  "indxl2g INDXLOC NB IPROC ISRCPROC NPROCS =
     NPROCS * NB * ((INDXLOC - 1) sdiv NB) + (INDXLOC - 1) smod NB
       + ((NPROCS + IPROC - ISRCPROC) smod NPROCS) * NB + 1"

definition indxg2p :: "int \<Rightarrow> int \<Rightarrow> int \<Rightarrow> int \<Rightarrow> int \<Rightarrow> int" where
  "indxg2p INDXGLOB NB IPROC ISRCPROC NPROCS =
     (ISRCPROC + (INDXGLOB - 1) sdiv NB) smod NPROCS"

definition indxg2l :: "int \<Rightarrow> int \<Rightarrow> int \<Rightarrow> int \<Rightarrow> int \<Rightarrow> int" where
  "indxg2l INDXGLOB NB IPROC ISRCPROC NPROCS =
     NB * ((INDXGLOB - 1) sdiv (NB * NPROCS)) + (INDXGLOB - 1) smod NB + 1"

definition numroc :: "int \<Rightarrow> int \<Rightarrow> int \<Rightarrow> int \<Rightarrow> int \<Rightarrow> int" where
  "numroc N NB IPROC ISRCPROC NPROCS =
     (let MYDIST = (NPROCS + IPROC - ISRCPROC) smod NPROCS;
          NBLOCKS = N sdiv NB;
          BASE = (NBLOCKS sdiv NPROCS) * NB;
          EXTRABLKS = NBLOCKS smod NPROCS
      in if MYDIST < EXTRABLKS then BASE + NB
         else if MYDIST = EXTRABLKS then BASE + N smod NB
         else BASE)"

text \<open>
  The two directions of section 4.1 on 0-based indices. \<open>local_to_global\<close> is what
  \<^verbatim>\<open>global_row\<close> and \<^verbatim>\<open>global_column\<close> compute from a local index; \<open>owner_and_local\<close>
  is the pair of the owning coordinate and the local index there.
\<close>

definition owner_and_local :: "int \<Rightarrow> int \<Rightarrow> int \<Rightarrow> int \<Rightarrow> int \<times> int" where
  "owner_and_local g b p first_coord =
     (indxg2p (g + 1) b 0 first_coord p, indxg2l (g + 1) b 0 first_coord p - 1)"

definition local_to_global :: "int \<Rightarrow> int \<Rightarrow> int \<Rightarrow> int \<Rightarrow> int \<Rightarrow> int" where
  "local_to_global l b this_coord first_coord p =
     indxl2g (l + 1) b this_coord first_coord p - 1"

section \<open>Process grid\<close>

text \<open>
  Modelled from the spec: the class \<^verbatim>\<open>Utilities::MPI::ProcessGrid\<close> is used by the
  source through its fields only. One record is one process's view of a grid (section 3);
  \<open>address\<close> stands for the identity of the shared object, which the source compares as
  a pointer (\<^verbatim>\<open>this->grid != dest.grid\<close>), \<open>n_mpi_processes\<close> and \<open>this_mpi_process\<close>
  for the size of the communicator and this process's rank in it.
\<close>

record ProcessGrid =
  address :: nat
  mpi_communicator :: nat
  n_mpi_processes :: nat
  this_mpi_process :: nat
  blacs_context :: int
  n_process_rows :: int
  n_process_columns :: int
  this_process_row :: int
  this_process_column :: int
  mpi_process_is_active :: bool

text \<open>
  Modelled from the spec: the constructor \<^verbatim>\<open>ProcessGrid(comm, R, C)\<close> (section 4.2). The
  ranks below \<open>R * C\<close> are arranged column by column (the order \<^verbatim>\<open>"Col"\<close> that the source
  itself asks for in its union grids); the excess ranks are inactive and have the
  coordinate \<open>-1\<close>.
\<close>

definition make_ProcessGrid :: "nat \<Rightarrow> nat \<Rightarrow> nat \<Rightarrow> nat \<Rightarrow> int \<Rightarrow> int \<Rightarrow> ProcessGrid" where
  "make_ProcessGrid addr comm P rank R C =
     (let active = (int rank < R * C)
      in \<lparr> address = addr, mpi_communicator = comm, n_mpi_processes = P,
           this_mpi_process = rank, blacs_context = int addr,
           n_process_rows = R, n_process_columns = C,
           this_process_row = (if active then int rank smod R else - 1),
           this_process_column = (if active then int rank sdiv R else - 1),
           mpi_process_is_active = active \<rparr>)"

text \<open>
  Modelled from the spec: \<^verbatim>\<open>send_to_inactive\<close> (section 4.2), seen from one process:
  an active process keeps its value, an inactive one ends with the value received.
\<close>

definition send_to_inactive :: "ProcessGrid \<Rightarrow> 'b \<Rightarrow> 'b \<Rightarrow> 'b" where
  "send_to_inactive g own received = (if mpi_process_is_active g then own else received)"

text \<open>
  Modelled from the spec: \<^verbatim>\<open>Cblacs_gridinfo\<close> gives the shape of a grid and the
  coordinate of the calling process, all \<open>-1\<close> for a process outside the grid.
\<close>

definition Cblacs_gridinfo :: "ProcessGrid \<Rightarrow> int \<times> int \<times> int \<times> int" where
  "Cblacs_gridinfo g =
     (if mpi_process_is_active g
      then (n_process_rows g, n_process_columns g, this_process_row g, this_process_column g)
      else (- 1, - 1, - 1, - 1))"

section \<open>The distributed matrix, as one process holds it\<close>

text \<open>
  The fields of \<^verbatim>\<open>ScaLAPACKMatrix\<close>. \<open>values\<close> is the local buffer of the base class
  \<^verbatim>\<open>TransposeTable\<close>, stored column by column. The scratch arrays \<^verbatim>\<open>work\<close> and
  \<^verbatim>\<open>iwork\<close> and the mutex are not part of a matrix's value and are left out.
\<close>

record 'a ScaLAPACKMatrix =
  "values" :: "'a list"
  state :: State
  property :: Property
  grid :: ProcessGrid
  n_rows :: int
  n_columns :: int
  row_block_size :: int
  column_block_size :: int
  n_local_rows :: int
  n_local_columns :: int
  descriptor :: "int list"
  uplo :: char
  first_process_row :: int
  first_process_column :: int
  submatrix_row :: int
  submatrix_column :: int

text \<open>
  Modelled from the spec: \<^verbatim>\<open>descinit_\<close> fills the nine integers of the descriptor
  (type, grid handle, shape, block size, first-process coordinate, local leading
  dimension) and reports the first illegal argument in \<open>info\<close>.
\<close>

definition descinit ::
  "int \<Rightarrow> int \<Rightarrow> int \<Rightarrow> int \<Rightarrow> int \<Rightarrow> int \<Rightarrow> ProcessGrid \<Rightarrow> int \<Rightarrow> int list \<times> int" where
  "descinit M N MB NB IRSRC ICSRC g LLD =
     (case Cblacs_gridinfo g of (NPROW, NPCOL, MYROW, MYCOL) \<Rightarrow>
        (let info =
               (if M < 0 then - 2
                else if N < 0 then - 3
                else if MB < 1 then - 4
                else if NB < 1 then - 5
                else if IRSRC < 0 \<or> NPROW \<le> IRSRC then - 6
                else if ICSRC < 0 \<or> NPCOL \<le> ICSRC then - 7
                else if NPROW = - 1 then - 8
                else if LLD < max 1 (numroc M MB MYROW IRSRC NPROW) then - 9
                else 0);
             RSRC = max 0 (min IRSRC (NPROW - 1));
             CSRC = max 0 (min ICSRC (NPCOL - 1))
         in ([1, blacs_context g, max 0 M, max 0 N, max 1 MB, max 1 NB, RSRC, CSRC,
              max LLD (max 1 (numroc (max 0 M) (max 1 MB) MYROW RSRC NPROW))], info)))"

text \<open>
  The constructor. An active process computes its local extent, builds the descriptor and
  allocates a zero-initialised buffer; an inactive one sets "something telling".
\<close>

definition ScaLAPACKMatrix_init ::
  "int \<Rightarrow> int \<Rightarrow> ProcessGrid \<Rightarrow> int \<Rightarrow> int \<Rightarrow> Property \<Rightarrow> error + ('a::zero) ScaLAPACKMatrix" where
  "ScaLAPACKMatrix_init n_rows' n_columns' process_grid row_block_size' column_block_size' property' =
     (if \<not> 0 < row_block_size' then Inl (ExcMessage ''Row block size has to be positive.'')
      else if \<not> 0 < column_block_size'
        then Inl (ExcMessage ''Column block size has to be positive.'')
      else if \<not> row_block_size' \<le> n_rows'
        then Inl (ExcMessage ''Row block size can not be greater than the number of rows of the matrix'')
      else if \<not> column_block_size' \<le> n_columns'
        then Inl (ExcMessage ''Column block size can not be greater than the number of columns of the matrix'')
      else if mpi_process_is_active process_grid then
        (let nlr = numroc n_rows' row_block_size' (this_process_row process_grid) 0
                     (n_process_rows process_grid);
             nlc = numroc n_columns' column_block_size' (this_process_column process_grid) 0
                     (n_process_columns process_grid);
             lda = max 1 nlr
         in case descinit n_rows' n_columns' row_block_size' column_block_size' 0 0
                   process_grid lda of
              (desc, info) \<Rightarrow>
                if info \<noteq> 0 then Inl (ExcErrorCode ''descinit_'' info)
                else Inr \<lparr> values = replicate (nat (nlr * nlc)) 0,
                           state = matrix, property = property', grid = process_grid,
                           n_rows = n_rows', n_columns = n_columns',
                           row_block_size = row_block_size',
                           column_block_size = column_block_size',
                           n_local_rows = nlr, n_local_columns = nlc,
                           descriptor = desc, uplo = CHR ''L'',
                           first_process_row = 0, first_process_column = 0,
                           submatrix_row = 1, submatrix_column = 1 \<rparr>)
      else Inr \<lparr> values = [],
                 state = matrix, property = property', grid = process_grid,
                 n_rows = n_rows', n_columns = n_columns',
                 row_block_size = row_block_size',
                 column_block_size = column_block_size',
                 n_local_rows = - 1, n_local_columns = - 1,
                 descriptor = replicate 9 (- 1), uplo = CHR ''L'',
                 first_process_row = 0, first_process_column = 0,
                 submatrix_row = 1, submatrix_column = 1 \<rparr>)"

text \<open>\<^verbatim>\<open>global_row\<close> and \<^verbatim>\<open>global_column\<close>: local index to global index, both 0-based.\<close>

definition global_row :: "'a ScaLAPACKMatrix \<Rightarrow> nat \<Rightarrow> error + nat" where
  "global_row A loc_row =
     (if \<not> (0 \<le> n_local_rows A \<and> int loc_row < n_local_rows A) then Inl ExcIndexRange
      else let i = int loc_row + 1
           in Inr (nat (indxl2g i (row_block_size A) (this_process_row (grid A))
                          (first_process_row A) (n_process_rows (grid A)) - 1)))"

definition global_column :: "'a ScaLAPACKMatrix \<Rightarrow> nat \<Rightarrow> error + nat" where
  "global_column A loc_column =
     (if \<not> (0 \<le> n_local_columns A \<and> int loc_column < n_local_columns A) then Inl ExcIndexRange
      else let j = int loc_column + 1
           in Inr (nat (indxl2g j (column_block_size A) (this_process_column (grid A))
                          (first_process_column A) (n_process_columns (grid A)) - 1)))"


section \<open>Copy into a replicated dense matrix\<close>












section \<open>Kernels of the external libraries\<close>

text \<open>
  The collective kernels of the linear-algebra library are not part of the source. A
  function of the source that calls one takes it as a parameter: a function from the
  arguments of the call on this process to what the call leaves behind on this process
  (the local buffer it wrote, the status it reported). The arguments are in the order
  of the call in the source.
\<close>

type_synonym 'a pgemr2d_kernel =
  "int \<Rightarrow> int \<Rightarrow> 'a list \<Rightarrow> int \<Rightarrow> int \<Rightarrow> int list
     \<Rightarrow> 'a list \<Rightarrow> int \<Rightarrow> int \<Rightarrow> int list \<Rightarrow> nat \<times> nat \<Rightarrow> 'a list"

type_synonym 'a pgeadd_kernel =
  "char \<Rightarrow> int \<Rightarrow> int \<Rightarrow> 'a \<Rightarrow> 'a list \<Rightarrow> int \<Rightarrow> int \<Rightarrow> int list
     \<Rightarrow> 'a \<Rightarrow> 'a list \<Rightarrow> int \<Rightarrow> int \<Rightarrow> int list \<Rightarrow> 'a list"

type_synonym 'a ppotrf_kernel =
  "char \<Rightarrow> int \<Rightarrow> 'a list \<Rightarrow> int \<Rightarrow> int \<Rightarrow> int list \<Rightarrow> 'a list \<times> int"

section \<open>Copy between distributed matrices\<close>

text \<open>
  The union context that \<^verbatim>\<open>Csys2blacs_handle\<close> and \<^verbatim>\<open>Cblacs_gridinit\<close> build is named
  by the two communicators it spans. \<open>ierr\<close> is the status of the MPI calls of the
  function (the first that is not zero, if any).

  \<^verbatim>\<open>copy_to(B, offset_A, offset_B, submatrix_size)\<close>: the offsets and the size are
  \<^verbatim>\<open>unsigned int\<close>, and the range checks are computed in that type.
\<close>

definition copy_to_submatrix ::
  "'a pgemr2d_kernel \<Rightarrow> int \<Rightarrow> 'a ScaLAPACKMatrix \<Rightarrow> 'a ScaLAPACKMatrix
     \<Rightarrow> 32 word \<times> 32 word \<Rightarrow> 32 word \<times> 32 word \<Rightarrow> 32 word \<times> 32 word
     \<Rightarrow> error + 'a ScaLAPACKMatrix" where
  "copy_to_submatrix pgemr2d ierr A B offset_A offset_B submatrix_size =
     (if fst submatrix_size = 0 \<or> snd submatrix_size = 0 then Inr B
      else if \<not> fst offset_A < word_of_int (n_rows A) - fst submatrix_size + 1
        then Inl ExcIndexRange
      else if \<not> snd offset_A < word_of_int (n_columns A) - snd submatrix_size + 1
        then Inl ExcIndexRange
      else if \<not> fst offset_B < word_of_int (n_rows B) - fst submatrix_size + 1
        then Inl ExcIndexRange
      else if \<not> snd offset_B < word_of_int (n_columns B) - snd submatrix_size + 1
        then Inl ExcIndexRange
      else if ierr \<noteq> 0 then Inl (ExcMPI ierr)
      else if mpi_communicator (grid A) \<noteq> mpi_communicator (grid B)
        then Inl (ExcMessage ''Matrix A and B must have a common MPI Communicator'')
      else
        (let union_blacs_context = (mpi_communicator (grid A), mpi_communicator (grid A));
             in_context_A =
               (case Cblacs_gridinfo (grid A) of
                  (n_grid_rows_A, n_grid_columns_A, my_row_A, my_column_A) \<Rightarrow>
                    (0 \<le> my_row_A \<and> my_row_A < n_grid_rows_A)
                    \<and> (0 \<le> my_column_A \<and> my_column_A < n_grid_columns_A));
             in_context_B =
               (case Cblacs_gridinfo (grid B) of
                  (n_grid_rows_B, n_grid_columns_B, my_row_B, my_column_B) \<Rightarrow>
                    (0 \<le> my_row_B \<and> my_row_B < n_grid_rows_B)
                    \<and> (0 \<le> my_column_B \<and> my_column_B < n_grid_columns_B));
             n_rows_submatrix = sint (fst submatrix_size);
             n_columns_submatrix = sint (snd submatrix_size);
             ia = sint (fst offset_A + 1); ja = sint (snd offset_A + 1);
             ib = sint (fst offset_B + 1); jb = sint (snd offset_B + 1);
             loc_vals_A = (if in_context_A then values A else []);
             desc_A = (if in_context_A then descriptor A else (replicate 9 0)[1 := - 1]);
             loc_vals_B = (if in_context_B then values B else []);
             desc_B = (if in_context_B then descriptor B else (replicate 9 0)[1 := - 1]);
             written = pgemr2d n_rows_submatrix n_columns_submatrix
                         loc_vals_A ia ja desc_A loc_vals_B ib jb desc_B union_blacs_context
         in Inr (B\<lparr>values := (if in_context_B \<and> values B \<noteq> [] then written else values B),
                    state := matrix\<rparr>)))"

text \<open>
  \<^verbatim>\<open>copy_to(dest)\<close>, the copy of the whole matrix. With different grid objects or block
  sizes the redistribution kernel runs on the union of the two communicators; otherwise
  an active process copies its buffer.
\<close>

definition copy_to ::
  "'a pgemr2d_kernel \<Rightarrow> int \<Rightarrow> 'a ScaLAPACKMatrix \<Rightarrow> 'a ScaLAPACKMatrix
     \<Rightarrow> error + 'a ScaLAPACKMatrix" where
  "copy_to pgemr2d ierr A dest =
     (if n_rows A \<noteq> n_rows dest then Inl (ExcDimensionMismatch (n_rows A) (n_rows dest))
      else if n_columns A \<noteq> n_columns dest
        then Inl (ExcDimensionMismatch (n_columns A) (n_columns dest))
      else if mpi_process_is_active (grid A) \<and> descriptor A ! 0 \<noteq> 1
        then Inl (ExcMessage ''Copying of ScaLAPACK matrices only implemented for dense matrices'')
      else if mpi_process_is_active (grid dest) \<and> descriptor dest ! 0 \<noteq> 1
        then Inl (ExcMessage ''Copying of ScaLAPACK matrices only implemented for dense matrices'')
      else if address (grid A) \<noteq> address (grid dest)
              \<or> row_block_size A \<noteq> row_block_size dest
              \<or> column_block_size A \<noteq> column_block_size dest
        then
          (if ierr \<noteq> 0 then Inl (ExcMPI ierr)
           else
             (let union_blacs_context =
                    (mpi_communicator (grid A), mpi_communicator (grid dest));
                  loc_vals_source =
                    (if mpi_process_is_active (grid A) \<and> 0 < length (values A)
                     then values A else []);
                  loc_vals_dest =
                    (if mpi_process_is_active (grid dest) \<and> 0 < length (values dest)
                     then values dest else []);
                  written = pgemr2d (n_rows A) (n_columns A)
                              loc_vals_source (submatrix_row A) (submatrix_column A) (descriptor A)
                              loc_vals_dest (submatrix_row dest) (submatrix_column dest)
                              (descriptor dest) union_blacs_context
              in Inr (dest\<lparr>values :=
                             (if mpi_process_is_active (grid dest) \<and> 0 < length (values dest)
                              then written else values dest),
                           state := state A, property := property A\<rparr>)))
      else Inr (dest\<lparr>values := (if mpi_process_is_active (grid A) then values A else values dest),
                      state := state A, property := property A\<rparr>))"

section \<open>Addition\<close>

text \<open>
  \<^verbatim>\<open>add(B, alpha, beta, transpose_B)\<close>. The kernel is called with \<open>beta\<close> and the
  buffer of \<open>B\<close> first, then with \<open>alpha\<close> and the buffer of this matrix, which it
  overwrites.
\<close>

definition add ::
  "'a pgeadd_kernel \<Rightarrow> 'a ScaLAPACKMatrix \<Rightarrow> 'a \<Rightarrow> 'a \<Rightarrow> bool \<Rightarrow> 'a ScaLAPACKMatrix
     \<Rightarrow> error + 'a ScaLAPACKMatrix" where
  "add pgeadd B alpha beta transpose_B A =
     (if transpose_B \<and> n_rows A \<noteq> n_columns B
        then Inl (ExcDimensionMismatch (n_rows A) (n_columns B))
      else if transpose_B \<and> n_columns A \<noteq> n_rows B
        then Inl (ExcDimensionMismatch (n_columns A) (n_rows B))
      else if transpose_B \<and> column_block_size A \<noteq> row_block_size B
        then Inl (ExcDimensionMismatch (column_block_size A) (row_block_size B))
      else if transpose_B \<and> row_block_size A \<noteq> column_block_size B
        then Inl (ExcDimensionMismatch (row_block_size A) (column_block_size B))
      else if \<not> transpose_B \<and> n_rows A \<noteq> n_rows B
        then Inl (ExcDimensionMismatch (n_rows A) (n_rows B))
      else if \<not> transpose_B \<and> n_columns A \<noteq> n_columns B
        then Inl (ExcDimensionMismatch (n_columns A) (n_columns B))
      else if \<not> transpose_B \<and> column_block_size A \<noteq> column_block_size B
        then Inl (ExcDimensionMismatch (column_block_size A) (column_block_size B))
      else if \<not> transpose_B \<and> row_block_size A \<noteq> row_block_size B
        then Inl (ExcDimensionMismatch (row_block_size A) (row_block_size B))
      else if address (grid A) \<noteq> address (grid B)
        then Inl (ExcMessage ''The matrices A and B need to have the same process grid'')
      else if mpi_process_is_active (grid A) then
        (let trans_b = (if transpose_B then CHR ''T'' else CHR ''N'');
             A_loc = values A;
             B_loc = values B
         in Inr (A\<lparr>values :=
                      pgeadd trans_b (n_rows A) (n_columns A)
                        beta B_loc (submatrix_row B) (submatrix_column B) (descriptor B)
                        alpha A_loc (submatrix_row A) (submatrix_column A) (descriptor A),
                    state := matrix\<rparr>))
      else Inr (A\<lparr>state := matrix\<rparr>))"

section \<open>Cholesky factorisation and inverse\<close>

definition compute_cholesky_factorization ::
  "'a ppotrf_kernel \<Rightarrow> 'a ScaLAPACKMatrix \<Rightarrow> error + 'a ScaLAPACKMatrix" where
  "compute_cholesky_factorization ppotrf A =
     (if n_columns A \<noteq> n_rows A
        then Inl (ExcMessage ''Cholesky factorization can be applied to SPD matrices only.'')
      else
        (case (if mpi_process_is_active (grid A)
               then (case ppotrf (uplo A) (n_columns A) (values A)
                            (submatrix_row A) (submatrix_column A) (descriptor A) of
                       (A_loc, info) \<Rightarrow>
                         if info \<noteq> 0 then Inl (ExcErrorCode ''ppotrf'' info)
                         else Inr (A\<lparr>values := A_loc\<rparr>))
               else Inr A) of
           Inl e \<Rightarrow> Inl e
         | Inr A' \<Rightarrow>
             Inr (A'\<lparr>property := (if uplo A = CHR ''L'' then lower_triangular
                                    else upper_triangular),
                      state := cholesky\<rparr>)))"

definition invert ::
  "'a ppotrf_kernel \<Rightarrow> 'a ppotrf_kernel \<Rightarrow> 'a ScaLAPACKMatrix \<Rightarrow> error + 'a ScaLAPACKMatrix" where
  "invert ppotrf ppotri A =
     (case (if state A = matrix then compute_cholesky_factorization ppotrf A else Inr A) of
        Inl e \<Rightarrow> Inl e
      | Inr A1 \<Rightarrow>
          (case (if mpi_process_is_active (grid A1)
                 then (case ppotri (uplo A1) (n_columns A1) (values A1)
                              (submatrix_row A1) (submatrix_column A1) (descriptor A1) of
                         (A_loc, info) \<Rightarrow>
                           if info \<noteq> 0 then Inl (ExcErrorCode ''ppotri'' info)
                           else Inr (A1\<lparr>values := A_loc\<rparr>))
                 else Inr A1) of
             Inl e \<Rightarrow> Inl e
           | Inr A2 \<Rightarrow> Inr (A2\<lparr>state := inverse_matrix\<rparr>)))"

section \<open>Symmetric eigenvalue problems\<close>

text \<open>
  What one call of \<^verbatim>\<open>psyev\<close> and of \<^verbatim>\<open>psyevx\<close> leaves behind on this process: the
  buffer of the matrix, the array of eigenvalues, the buffer of the eigenvectors, the
  counts \<open>m\<close> and \<open>nz\<close>, the first entries of \<^verbatim>\<open>work\<close> and \<^verbatim>\<open>iwork\<close> read as
  integers, and the status.
\<close>

record 'a psyev_out =
  psyev_A :: "'a list"
  psyev_ev :: "'a list"
  psyev_Z :: "'a list"
  psyev_work0 :: int
  psyev_info :: int

record 'a psyevx_out =
  psyevx_A :: "'a list"
  psyevx_m :: int
  psyevx_nz :: int
  psyevx_ev :: "'a list"
  psyevx_Z :: "'a list"
  psyevx_work0 :: int
  psyevx_iwork0 :: int
  psyevx_info :: int

text \<open>
  The kernels of the eigensolver with the two operations on numbers that the source
  takes from outside: the test \<^verbatim>\<open>std::isnan\<close> and the value
  \<^verbatim>\<open>std::numeric_limits<NumberType>::quiet_NaN()\<close> of the default arguments. The
  arguments of \<open>psyev\<close> are \<^verbatim>\<open>jobz, uplo, n, A, ia, ja, desca, w, z, iz, jz, descz, lwork\<close>,
  those of \<open>psyevx\<close> are \<^verbatim>\<open>jobz, range, uplo, n, A, ia, ja, desca, vl, vu, il, iu, abstol,
  m, nz, w, orfac, z, iz, jz, descz, lwork, liwork\<close>.
\<close>

record 'a eigen_kernels =
  psyev :: "char \<Rightarrow> char \<Rightarrow> int \<Rightarrow> 'a list \<Rightarrow> int \<Rightarrow> int \<Rightarrow> int list \<Rightarrow> 'a list
              \<Rightarrow> 'a list \<Rightarrow> int \<Rightarrow> int \<Rightarrow> int list \<Rightarrow> int \<Rightarrow> 'a psyev_out"
  psyevx :: "char \<Rightarrow> char \<Rightarrow> char \<Rightarrow> int \<Rightarrow> 'a list \<Rightarrow> int \<Rightarrow> int \<Rightarrow> int list
              \<Rightarrow> 'a \<Rightarrow> 'a \<Rightarrow> int \<Rightarrow> int \<Rightarrow> 'a \<Rightarrow> int \<Rightarrow> int \<Rightarrow> 'a list \<Rightarrow> 'a
              \<Rightarrow> 'a list \<Rightarrow> int \<Rightarrow> int \<Rightarrow> int list \<Rightarrow> int \<Rightarrow> int \<Rightarrow> 'a psyevx_out"
  plamch :: "int \<Rightarrow> char \<Rightarrow> 'a"
  isnan :: "'a \<Rightarrow> bool"
  quiet_NaN :: 'a

text \<open>\<^verbatim>\<open>std::min\<close>, \<^verbatim>\<open>std::max\<close> and \<^verbatim>\<open>numbers::invalid_unsigned_int\<close>.\<close>

definition std_min :: "'b::ord \<Rightarrow> 'b \<Rightarrow> 'b" where
  "std_min a b = (if b < a then b else a)"

definition std_max :: "'b::ord \<Rightarrow> 'b \<Rightarrow> 'b" where
  "std_max a b = (if a < b then b else a)"

definition invalid_unsigned_int :: "32 word" where
  "invalid_unsigned_int = - 1"

text \<open>
  The scratch matrix for the eigenvectors: of the shape and block size of the matrix when
  eigenvectors are asked for, otherwise "sufficiently small".
\<close>

definition eigenvectors_scratch ::
  "bool \<Rightarrow> 'a ScaLAPACKMatrix \<Rightarrow> error + ('a::zero) ScaLAPACKMatrix" where
  "eigenvectors_scratch compute_eigenvectors A =
     (if compute_eigenvectors
      then ScaLAPACKMatrix_init (n_rows A) (n_rows A) (grid A)
             (row_block_size A) (row_block_size A) general
      else ScaLAPACKMatrix_init (n_process_rows (grid A)) (n_process_columns (grid A)) (grid A)
             1 1 general)"

text \<open>
  The part of \<^verbatim>\<open>eigenpairs_symmetric\<close> that an active process runs up to the second
  call of the kernel: the choice of the range, the workspace query, the computation. It
  returns the matrix and the scratch matrix with the buffers as the kernel left them,
  the count \<open>m\<close> and the array of eigenvalues.
\<close>

definition eigenpairs_symmetric_compute ::
  "'a eigen_kernels \<Rightarrow> bool \<Rightarrow> 32 word \<times> 32 word \<Rightarrow> 'a \<times> 'a
     \<Rightarrow> 'a ScaLAPACKMatrix \<Rightarrow> int \<Rightarrow> 'a list \<Rightarrow> ('a::{zero,times,numeral,linorder}) ScaLAPACKMatrix
     \<Rightarrow> error + ('a ScaLAPACKMatrix \<times> 'a ScaLAPACKMatrix \<times> int \<times> 'a list)" where
  "eigenpairs_symmetric_compute K compute_eigenvectors eigenvalue_idx eigenvalue_limits
       eigenvectors m ev A =
     (let use_values = \<not> (isnan K (fst eigenvalue_limits) \<or> isnan K (snd eigenvalue_limits));
          use_indices = \<not> (fst eigenvalue_idx = invalid_unsigned_int
                            \<or> snd eigenvalue_idx = invalid_unsigned_int);
          jobz = (if compute_eigenvectors then CHR ''V'' else CHR ''N'');
          range = (if \<not> use_indices then (if \<not> use_values then CHR ''A'' else CHR ''V'')
                   else CHR ''I'');
          all_eigenpairs = (\<not> use_indices \<and> \<not> use_values);
          vl = (if \<not> use_indices \<and> use_values
                then std_min (fst eigenvalue_limits) (snd eigenvalue_limits) else 0);
          vu = (if \<not> use_indices \<and> use_values
                then std_max (fst eigenvalue_limits) (snd eigenvalue_limits) else 0);
          il = (if use_indices
                then sint (std_min (fst eigenvalue_idx) (snd eigenvalue_idx) + 1) else 1);
          iu = (if use_indices
                then sint (std_max (fst eigenvalue_idx) (snd eigenvalue_idx) + 1) else 1);
          nz = 0;
          orfac = 0;
          A_loc = values A;
          lwork = - 1;
          liwork = - 1;
          eigenvectors_loc = (if compute_eigenvectors then values eigenvectors else [])
      in if all_eigenpairs then
           (let q = psyev K jobz (uplo A) (n_rows A) A_loc
                      (submatrix_row A) (submatrix_column A) (descriptor A) ev
                      eigenvectors_loc (submatrix_row eigenvectors)
                      (submatrix_column eigenvectors) (descriptor eigenvectors) lwork
            in if psyev_info q \<noteq> 0 then Inl (ExcErrorCode ''psyev'' (psyev_info q))
               else
                 (let r = psyev K jobz (uplo A) (n_rows A) (psyev_A q)
                            (submatrix_row A) (submatrix_column A) (descriptor A) (psyev_ev q)
                            (if compute_eigenvectors then psyev_Z q else [])
                            (submatrix_row eigenvectors) (submatrix_column eigenvectors)
                            (descriptor eigenvectors) (psyev_work0 q)
                  in if psyev_info r \<noteq> 0 then Inl (ExcErrorCode ''psyev'' (psyev_info r))
                     else Inr (A\<lparr>values := psyev_A r\<rparr>,
                               (if compute_eigenvectors
                                then eigenvectors\<lparr>values := psyev_Z r\<rparr> else eigenvectors),
                               m, psyev_ev r)))
         else
           (let cmach = (if compute_eigenvectors then CHR ''U'' else CHR ''S'');
                abstol = plamch K (blacs_context (grid A)) cmach * 2;
                q = psyevx K jobz range (uplo A) (n_rows A) A_loc
                      (submatrix_row A) (submatrix_column A) (descriptor A)
                      vl vu il iu abstol m nz ev orfac
                      eigenvectors_loc (submatrix_row eigenvectors)
                      (submatrix_column eigenvectors) (descriptor eigenvectors) lwork liwork
            in if psyevx_info q \<noteq> 0 then Inl (ExcErrorCode ''psyevx'' (psyevx_info q))
               else if \<not> 0 < psyevx_iwork0 q then Inl ExcInternalError
               else
                 (let r = psyevx K jobz range (uplo A) (n_rows A) (psyevx_A q)
                            (submatrix_row A) (submatrix_column A) (descriptor A)
                            vl vu il iu abstol (psyevx_m q) (psyevx_nz q) (psyevx_ev q) orfac
                            (if compute_eigenvectors then psyevx_Z q else [])
                            (submatrix_row eigenvectors) (submatrix_column eigenvectors)
                            (descriptor eigenvectors) (psyevx_work0 q) (psyevx_iwork0 q)
                  in if psyevx_info r \<noteq> 0 then Inl (ExcErrorCode ''psyevx'' (psyevx_info r))
                     else Inr (A\<lparr>values := psyevx_A r\<rparr>,
                               (if compute_eigenvectors
                                then eigenvectors\<lparr>values := psyevx_Z r\<rparr> else eigenvectors),
                               psyevx_m r, psyevx_ev r))))"

text \<open>\<^verbatim>\<open>std::vector::resize\<close> on the array of eigenvalues.\<close>

definition resize_vector :: "('a::zero) list \<Rightarrow> nat \<Rightarrow> 'a list" where
  "resize_vector xs k = take k xs @ replicate (k - length xs) 0"

text \<open>
  \<^verbatim>\<open>eigenpairs_symmetric\<close>. \<open>received_m\<close> and \<open>received_ev\<close> are what an inactive
  process receives in the two broadcasts. The result is the array of eigenvalues and the
  matrix afterwards.
\<close>

definition eigenpairs_symmetric ::
  "'a eigen_kernels \<Rightarrow> int \<Rightarrow> 'a list \<Rightarrow> bool \<Rightarrow> 32 word \<times> 32 word \<Rightarrow> 'a \<times> 'a
     \<Rightarrow> ('a::{zero,times,numeral,linorder}) ScaLAPACKMatrix
     \<Rightarrow> error + ('a list \<times> 'a ScaLAPACKMatrix)" where
  "eigenpairs_symmetric K received_m received_ev compute_eigenvectors
       eigenvalue_idx eigenvalue_limits A =
     (if state A \<noteq> matrix
        then Inl (ExcMessage ''Matrix has to be in Matrix state before calling this function.'')
      else if property A \<noteq> symmetric
        then Inl (ExcMessage ''Matrix has to be symmetric for this operation.'')
      else
        (let use_values = \<not> (isnan K (fst eigenvalue_limits) \<or> isnan K (snd eigenvalue_limits));
             use_indices = \<not> (fst eigenvalue_idx = invalid_unsigned_int
                               \<or> snd eigenvalue_idx = invalid_unsigned_int)
         in if use_values \<and> use_indices
              then Inl (ExcMessage ''Prescribing both the index and value range for the eigenvalues is ambiguous'')
            else
              (case eigenvectors_scratch compute_eigenvectors A of
                 Inl e \<Rightarrow> Inl e
               | Inr scratch \<Rightarrow>
                   (let eigenvectors = scratch\<lparr>property := property A\<rparr>;
                        m = n_rows A;
                        ev = replicate (nat (n_rows A)) 0
                    in case (if mpi_process_is_active (grid A)
                             then (case eigenpairs_symmetric_compute K compute_eigenvectors
                                          eigenvalue_idx eigenvalue_limits eigenvectors m ev A of
                                     Inl e \<Rightarrow> Inl e
                                   | Inr (A1, eigenvectors1, m1, ev1) \<Rightarrow>
                                       Inr ((if compute_eigenvectors
                                             then A1\<lparr>values := values eigenvectors1\<rparr> else A1),
                                            m1, take (nat m1) ev1))
                             else Inr (A, m, ev)) of
                         Inl e \<Rightarrow> Inl e
                       | Inr (A2, m2, ev2) \<Rightarrow>
                           (let m3 = send_to_inactive (grid A) m2 received_m;
                                ev3 = (if \<not> mpi_process_is_active (grid A)
                                       then resize_vector ev2 (nat m3) else ev2);
                                ev4 = send_to_inactive (grid A) ev3 received_ev
                            in Inr (ev4,
                                    (if compute_eigenvectors
                                     then A2\<lparr>property := general, state := eigenvalues\<rparr>
                                     else A2\<lparr>state := unusable\<rparr>)))))))"

definition eigenpairs_symmetric_by_index ::
  "'a eigen_kernels \<Rightarrow> int \<Rightarrow> 'a list \<Rightarrow> 32 word \<times> 32 word \<Rightarrow> bool
     \<Rightarrow> ('a::{zero,times,numeral,linorder}) ScaLAPACKMatrix
     \<Rightarrow> error + ('a list \<times> 'a ScaLAPACKMatrix)" where
  "eigenpairs_symmetric_by_index K received_m received_ev index_limits compute_eigenvectors A =
     (if \<not> fst index_limits < word_of_int (n_rows A) then Inl ExcIndexRange
      else if \<not> snd index_limits < word_of_int (n_rows A) then Inl ExcIndexRange
      else
        (let idx = (std_min (fst index_limits) (snd index_limits),
                    std_max (fst index_limits) (snd index_limits))
         in if fst idx = 0 \<and> snd idx = word_of_int (n_rows A) - 1
            then eigenpairs_symmetric K received_m received_ev compute_eigenvectors
                   (invalid_unsigned_int, invalid_unsigned_int) (quiet_NaN K, quiet_NaN K) A
            else eigenpairs_symmetric K received_m received_ev compute_eigenvectors
                   idx (quiet_NaN K, quiet_NaN K) A))"

definition eigenpairs_symmetric_by_value ::
  "'a eigen_kernels \<Rightarrow> int \<Rightarrow> 'a list \<Rightarrow> 'a \<times> 'a \<Rightarrow> bool
     \<Rightarrow> ('a::{zero,times,numeral,linorder}) ScaLAPACKMatrix
     \<Rightarrow> error + ('a list \<times> 'a ScaLAPACKMatrix)" where
  "eigenpairs_symmetric_by_value K received_m received_ev value_limits compute_eigenvectors A =
     (if isnan K (fst value_limits) then Inl (ExcMessage ''value_limits.first is NaN'')
      else if isnan K (snd value_limits) then Inl (ExcMessage ''value_limits.second is NaN'')
      else
        (let indices = (invalid_unsigned_int, invalid_unsigned_int)
         in eigenpairs_symmetric K received_m received_ev compute_eigenvectors
              indices value_limits A))"

section \<open>Checkpoint I/O\<close>

text \<open>
  The archive as the source writes and reads it: the dataset "matrix" with its two
  dimensions (columns first), its chunk shape and its entries in the row-major order of
  the file, and the two one-element enumeration datasets "state" and "property"
  (\<open>None\<close> while not written). The element type of the dataset is the type \<open>'a\<close>, so
  the source's comparison of the type classes has one outcome.
\<close>

record 'a hdf5_archive =
  matrix_dims :: "nat \<times> nat"
  matrix_chunk_dims :: "nat \<times> nat"
  matrix_data :: "'a list"
  state_dataset :: "State option"
  property_dataset :: "Property option"

text \<open>
  What one process contributes to the archive in the parallel path: the dataset it
  creates with the others, the hyperslab it selects, the buffer it writes there (if it
  holds any data) and, on the root, the two enumerations.
\<close>

record 'a hyperslab_write =
  created_dims :: "nat \<times> nat"
  created_chunk_dims :: "nat \<times> nat"
  hyperslab_offset :: "nat \<times> nat"
  hyperslab_count :: "nat \<times> nat"
  hyperslab_data :: "'a list option"
  written_state :: "State option"
  written_property :: "Property option"

datatype 'a written = Serial "'a hdf5_archive option" | Parallel "'a hyperslab_write"

text \<open>The two switches of the build that select the code of \<^verbatim>\<open>save\<close> and \<^verbatim>\<open>load\<close>.\<close>

record configuration =
  DEAL_II_WITH_HDF5 :: bool
  H5_HAVE_PARALLEL :: bool

text \<open>
  The numeric values of the enumerations, for the casts to \<^verbatim>\<open>int\<close> and back in
  \<^verbatim>\<open>load_serial\<close>. Modelled from the spec: the declarations of \<^verbatim>\<open>LAPACKSupport::State\<close>
  and \<^verbatim>\<open>LAPACKSupport::Property\<close> are not in the source; any numbering with distinct
  values serves. An integer that is no value of the enumeration is read as the last one.
\<close>

definition State_to_int :: "State \<Rightarrow> int" where
  "State_to_int s =
     (case s of matrix \<Rightarrow> 0 | inverse_matrix \<Rightarrow> 1 | lu \<Rightarrow> 2 | cholesky \<Rightarrow> 3
      | eigenvalues \<Rightarrow> 4 | svd \<Rightarrow> 5 | inverse_svd \<Rightarrow> 6 | unusable \<Rightarrow> 32768)"

definition State_of_int :: "int \<Rightarrow> State" where
  "State_of_int i =
     (if i = 0 then matrix else if i = 1 then inverse_matrix else if i = 2 then lu
      else if i = 3 then cholesky else if i = 4 then eigenvalues else if i = 5 then svd
      else if i = 6 then inverse_svd else unusable)"

definition Property_to_int :: "Property \<Rightarrow> int" where
  "Property_to_int p =
     (case p of general \<Rightarrow> 0 | symmetric \<Rightarrow> 1 | upper_triangular \<Rightarrow> 2
      | lower_triangular \<Rightarrow> 4 | diagonal \<Rightarrow> 6 | hessenberg \<Rightarrow> 8)"

definition Property_of_int :: "int \<Rightarrow> Property" where
  "Property_of_int i =
     (if i = 0 then general else if i = 1 then symmetric else if i = 2 then upper_triangular
      else if i = 4 then lower_triangular else if i = 6 then diagonal else hessenberg)"

text \<open>
  The first statements of \<^verbatim>\<open>save_serial\<close> and of \<^verbatim>\<open>load_serial\<close>, the same in both:
  a 1x1 grid, a new grid object on the communicator of the matrix, and on it the
  temporary matrix of one block.
\<close>

definition one_grid_tmp :: "'a ScaLAPACKMatrix \<Rightarrow> error + ('a::zero) ScaLAPACKMatrix" where
  "one_grid_tmp A =
     (let one_grid = make_ProcessGrid (Suc (address (grid A))) (mpi_communicator (grid A))
                       (n_mpi_processes (grid A)) (this_mpi_process (grid A)) 1 1;
          MB = n_rows A;
          NB = n_columns A
      in ScaLAPACKMatrix_init (n_rows A) (n_columns A) one_grid MB NB general)"

text \<open>
  \<^verbatim>\<open>save_serial\<close>: the matrix is gathered on the 1x1 grid, and the one process of that
  grid writes the archive. \<open>status\<close> is the status of the HDF5 calls (negative on
  failure).
\<close>

definition save_serial ::
  "'a pgemr2d_kernel \<Rightarrow> int \<Rightarrow> int \<Rightarrow> 32 word \<times> 32 word \<Rightarrow> ('a::zero) ScaLAPACKMatrix
     \<Rightarrow> error + 'a hdf5_archive option" where
  "save_serial pgemr2d ierr status chunk_size A =
     (case one_grid_tmp A of
        Inl e \<Rightarrow> Inl e
      | Inr tmp0 \<Rightarrow>
          (case copy_to pgemr2d ierr A tmp0 of
             Inl e \<Rightarrow> Inl e
           | Inr tmp \<Rightarrow>
               if mpi_process_is_active (grid tmp) then
                 (if status < 0 then Inl ExcIO
                  else Inr (Some \<lparr> matrix_dims = (nat (n_columns A), nat (n_rows A)),
                                   matrix_chunk_dims = (unat (snd chunk_size), unat (fst chunk_size)),
                                   matrix_data = values tmp,
                                   state_dataset = Some (state A),
                                   property_dataset = Some (property A) \<rparr>))
               else Inr None))"

text \<open>
  The first statements of \<^verbatim>\<open>save_parallel\<close> and of \<^verbatim>\<open>load_parallel\<close>, the same in
  both: the grid of one row and as many columns as the communicator has processes, and
  the temporary matrix on it. In \<^verbatim>\<open>std::ceil(n_columns/n_mpi_processes)\<close> the division
  is the one of \<^verbatim>\<open>unsigned int\<close>, so that \<^verbatim>\<open>std::ceil\<close> is applied to an integer.
\<close>

definition column_grid_tmp :: "'a ScaLAPACKMatrix \<Rightarrow> error + ('a::zero) ScaLAPACKMatrix" where
  "column_grid_tmp A =
     (let n_mpi_processes' = n_mpi_processes (grid A);
          column_grid = make_ProcessGrid (Suc (address (grid A))) (mpi_communicator (grid A))
                          (n_mpi_processes (grid A)) (this_mpi_process (grid A))
                          1 (int n_mpi_processes');
          MB = n_rows A;
          NB = sint ((word_of_int (n_columns A) :: 32 word) div word_of_nat n_mpi_processes')
      in ScaLAPACKMatrix_init (n_rows A) (n_columns A) column_grid MB NB general)"

text \<open>
  \<^verbatim>\<open>save_parallel\<close>. \<open>proc_n_local_columns\<close> is what \<^verbatim>\<open>MPI_Allgather\<close> delivers: the
  number of local columns of the temporary matrix on every process, in the order of the
  ranks.
\<close>

definition save_parallel ::
  "'a pgemr2d_kernel \<Rightarrow> int \<Rightarrow> int \<Rightarrow> int list \<Rightarrow> 32 word \<times> 32 word
     \<Rightarrow> ('a::zero) ScaLAPACKMatrix \<Rightarrow> error + 'a hyperslab_write" where
  "save_parallel pgemr2d ierr status proc_n_local_columns chunk_size A =
     (case column_grid_tmp A of
        Inl e \<Rightarrow> Inl e
      | Inr tmp0 \<Rightarrow>
          (case copy_to pgemr2d ierr A tmp0 of
             Inl e \<Rightarrow> Inl e
           | Inr tmp \<Rightarrow>
               if status < 0 then Inl ExcIO
               else
                 (let my_rank = this_mpi_process (grid tmp);
                      count = (nat (n_local_columns tmp), nat (n_rows tmp));
                      offset = (nat (sum_list (take my_rank proc_n_local_columns)), 0)
                  in Inr \<lparr> created_dims = (nat (n_columns tmp), nat (n_rows tmp)),
                           created_chunk_dims = (unat (snd chunk_size), unat (fst chunk_size)),
                           hyperslab_offset = offset,
                           hyperslab_count = count,
                           hyperslab_data = (if 0 < length (values tmp) then Some (values tmp)
                                             else None),
                           written_state = (if this_mpi_process (grid tmp) = 0
                                            then Some (state A) else None),
                           written_property = (if this_mpi_process (grid tmp) = 0
                                               then Some (property A) else None) \<rparr>)))"

text \<open>\<^verbatim>\<open>save\<close>: the default chunk shape, the two checks of it, and the choice of the path.\<close>

definition save ::
  "configuration \<Rightarrow> 'a pgemr2d_kernel \<Rightarrow> int \<Rightarrow> int \<Rightarrow> int list \<Rightarrow> 32 word \<times> 32 word
     \<Rightarrow> ('a::zero) ScaLAPACKMatrix \<Rightarrow> error + 'a written" where
  "save config pgemr2d ierr status proc_n_local_columns chunk_size A =
     (if \<not> DEAL_II_WITH_HDF5 config then Inl (ExcMessage ''HDF5 support is disabled.'')
      else
        (let chunks_size' =
               (if fst chunk_size = invalid_unsigned_int \<or> snd chunk_size = invalid_unsigned_int
                then (word_of_int (n_rows A), 1) else chunk_size)
         in if \<not> (fst chunks_size' \<le> word_of_int (n_rows A) \<and> 0 < fst chunks_size')
              then Inl ExcIndexRange
            else if \<not> (snd chunks_size' \<le> word_of_int (n_columns A) \<and> 0 < snd chunks_size')
              then Inl ExcIndexRange
            else if H5_HAVE_PARALLEL config
              then map_sum id Parallel
                     (save_parallel pgemr2d ierr status proc_n_local_columns chunks_size' A)
            else map_sum id Serial (save_serial pgemr2d ierr status chunks_size' A)))"

text \<open>
  \<^verbatim>\<open>load_serial\<close> up to its last statement. The one process of the 1x1 grid reads the
  archive into the temporary matrix; the state and the property travel to the other
  processes as integers (\<open>received_state\<close>, \<open>received_property\<close> are what an inactive
  process receives) and are set on all of them.
\<close>

definition load_serial_tmp ::
  "int \<Rightarrow> int \<Rightarrow> int \<Rightarrow> 'a hdf5_archive \<Rightarrow> ('a::zero) ScaLAPACKMatrix
     \<Rightarrow> error + 'a ScaLAPACKMatrix" where
  "load_serial_tmp status received_state received_property archive A =
     (case one_grid_tmp A of
        Inl e \<Rightarrow> Inl e
      | Inr tmp0 \<Rightarrow>
          (case (if mpi_process_is_active (grid tmp0) then
                   (if int (fst (matrix_dims archive)) \<noteq> n_columns A
                      then Inl (ExcMessage ''The number of columns of the matrix does not match the content of the archive'')
                    else if int (snd (matrix_dims archive)) \<noteq> n_rows A
                      then Inl (ExcMessage ''The number of rows of the matrix does not match the content of the archive'')
                    else if status < 0 then Inl ExcIO
                    else
                      (case (state_dataset archive, property_dataset archive) of
                         (Some s, Some p) \<Rightarrow>
                           Inr (tmp0\<lparr>values := matrix_data archive, state := s, property := p\<rparr>,
                                State_to_int s, Property_to_int p)
                       | _ \<Rightarrow> Inl ExcIO))
                 else Inr (tmp0, - 1, - 1)) of
             Inl e \<Rightarrow> Inl e
           | Inr (tmp1, state_int, property_int) \<Rightarrow>
               (let state_int' = send_to_inactive (grid tmp1) state_int received_state;
                    property_int' = send_to_inactive (grid tmp1) property_int received_property
                in Inr (tmp1\<lparr>state := State_of_int state_int',
                              property := Property_of_int property_int'\<rparr>))))"

text \<open>\<^verbatim>\<open>load_serial\<close>: the temporary matrix is then copied into this one.\<close>

definition load_serial ::
  "'a pgemr2d_kernel \<Rightarrow> int \<Rightarrow> int \<Rightarrow> int \<Rightarrow> int \<Rightarrow> 'a hdf5_archive
     \<Rightarrow> ('a::zero) ScaLAPACKMatrix \<Rightarrow> error + 'a ScaLAPACKMatrix" where
  "load_serial pgemr2d ierr status received_state received_property archive A =
     (case load_serial_tmp status received_state received_property archive A of
        Inl e \<Rightarrow> Inl e
      | Inr tmp \<Rightarrow> copy_to pgemr2d ierr tmp A)"

text \<open>
  \<^verbatim>\<open>load_parallel\<close>. Every process reads its hyperslab of the dataset and the two
  enumerations, then the temporary matrix is copied into this one.
\<close>

definition load_parallel ::
  "'a pgemr2d_kernel \<Rightarrow> int \<Rightarrow> int \<Rightarrow> int list \<Rightarrow> 'a hdf5_archive
     \<Rightarrow> ('a::zero) ScaLAPACKMatrix \<Rightarrow> error + 'a ScaLAPACKMatrix" where
  "load_parallel pgemr2d ierr status proc_n_local_columns archive A =
     (case column_grid_tmp A of
        Inl e \<Rightarrow> Inl e
      | Inr tmp0 \<Rightarrow>
          if status < 0 then Inl ExcIO
          else if int (fst (matrix_dims archive)) \<noteq> n_columns A
            then Inl (ExcMessage ''The number of columns of the matrix does not match the content of the archive'')
          else if int (snd (matrix_dims archive)) \<noteq> n_rows A
            then Inl (ExcMessage ''The number of rows of the matrix does not match the content of the archive'')
          else
            (let my_rank = this_mpi_process (grid tmp0);
                 count = (nat (n_local_columns tmp0), nat (n_local_rows tmp0));
                 offset = (nat (sum_list (take my_rank proc_n_local_columns)), 0 :: nat)
             in if \<not> (fst offset + fst count \<le> fst (matrix_dims archive)
                       \<and> snd count \<le> snd (matrix_dims archive))
                  then Inl ExcIO
                else
                  (case (state_dataset archive, property_dataset archive) of
                     (Some s, Some p) \<Rightarrow>
                       copy_to pgemr2d ierr
                         (tmp0\<lparr>values :=
                                  (if 0 < length (values tmp0)
                                   then concat (map (\<lambda>c. map (\<lambda>r. matrix_data archive
                                                       ! ((fst offset + c) * snd (matrix_dims archive) + r))
                                                     [0 ..< snd count])
                                                [0 ..< fst count])
                                   else values tmp0),
                                state := s, property := p\<rparr>) A
                   | _ \<Rightarrow> Inl ExcIO)))"

definition load ::
  "configuration \<Rightarrow> 'a pgemr2d_kernel \<Rightarrow> int \<Rightarrow> int \<Rightarrow> int \<Rightarrow> int \<Rightarrow> int list
     \<Rightarrow> 'a hdf5_archive \<Rightarrow> ('a::zero) ScaLAPACKMatrix \<Rightarrow> error + 'a ScaLAPACKMatrix" where
  "load config pgemr2d ierr status received_state received_property proc_n_local_columns
       archive A =
     (if \<not> DEAL_II_WITH_HDF5 config then Inl (ExcMessage ''HDF5 support is disabled.'')
      else if H5_HAVE_PARALLEL config
        then load_parallel pgemr2d ierr status proc_n_local_columns archive A
      else load_serial pgemr2d ierr status received_state received_property archive A)"

section \<open>The matrix across all processes\<close>

text \<open>
  A distributed matrix is one replica of the object per process of the communicator:
  a world maps the rank to the replica there. The ranks are arranged on the grid as
  \<open>make_ProcessGrid\<close> does it, so the process at the coordinate \<open>(pr, pc)\<close> has the
  rank \<open>pr + pc * R\<close>. \<open>global_entry\<close> is the entry \<open>(i, j)\<close> of the matrix that the
  local buffers hold together: the layout names the owning process and the local
  position, and the entry is read from the column-major buffer there.
\<close>

type_synonym 'a world = "nat \<Rightarrow> 'a ScaLAPACKMatrix"

definition global_entry :: "'a world \<Rightarrow> nat \<Rightarrow> nat \<Rightarrow> 'a" where
  "global_entry W i j =
     (let M = W 0 in
      case owner_and_local (int i) (row_block_size M) (n_process_rows (grid M))
             (first_process_row M) of
        (pr, li) \<Rightarrow>
          (case owner_and_local (int j) (column_block_size M) (n_process_columns (grid M))
                  (first_process_column M) of
             (pc, lj) \<Rightarrow>
               (let r = nat (pr + pc * n_process_rows (grid M))
                in values (W r) ! (nat lj * nat (n_local_rows (W r)) + nat li))))"

text \<open>
  A world is block-cyclic when every replica is what the constructor builds on its
  process for one shape, one pair of block sizes and one grid of \<open>R\<close> by \<open>C\<close> processes
  on a communicator of \<open>P\<close> processes, but for the content of the buffer, and the state
  and the property, which are the same on all processes.
\<close>

definition block_cyclic ::
  "('a::zero) world \<Rightarrow> int \<Rightarrow> int \<Rightarrow> int \<Rightarrow> int \<Rightarrow> nat \<Rightarrow> nat \<Rightarrow> nat \<Rightarrow> int \<Rightarrow> int \<Rightarrow> bool" where
  "block_cyclic W nr nc mb nb addr comm P R C =
     (1 \<le> R \<and> 1 \<le> C \<and> R * C \<le> int P
      \<and> (\<forall>r \<in> set [0 ..< P].
            ScaLAPACKMatrix_init nr nc (make_ProcessGrid addr comm P r R C) mb nb general
              = Inr ((W r)\<lparr>values := replicate (length (values (W r))) 0,
                             state := matrix, property := general\<rparr>)
            \<and> state (W r) = state (W 0) \<and> property (W r) = property (W 0)))"



text \<open>
  Modelled from the spec: the redistribution kernel \<^verbatim>\<open>pgemr2d\<close> of the library, as it
  acts on the process whose place in the grid of the destination is \<open>g\<close> (section 4.4
  and the library's contract \<open>sub(B) := sub(A)\<close>). The source is the world \<open>W_A\<close>;
  every local entry of the destination whose global place lies in the \<open>m\<close> by \<open>n\<close>
  sub-matrix at \<open>(ib, jb)\<close> receives the entry of the source at the same place of the
  sub-matrix at \<open>(ia, ja)\<close>; the other entries stay.
\<close>

definition pgemr2d_on :: "'a world \<Rightarrow> ProcessGrid \<Rightarrow> 'a pgemr2d_kernel" where
  "pgemr2d_on W_A g m n A_loc ia ja desc_A B_loc ib jb desc_B ctxt =
     map (\<lambda>k.
            (let LLD = desc_B ! 8;
                 li = int k mod LLD;
                 lj = int k div LLD;
                 gi = indxl2g (li + 1) (desc_B ! 4) (this_process_row g) (desc_B ! 6)
                        (n_process_rows g);
                 gj = indxl2g (lj + 1) (desc_B ! 5) (this_process_column g) (desc_B ! 7)
                        (n_process_columns g)
             in if ib \<le> gi \<and> gi < ib + m \<and> jb \<le> gj \<and> gj < jb + n
                then global_entry W_A (nat (gi - ib + ia - 1)) (nat (gj - jb + ja - 1))
                else B_loc ! k))
       [0 ..< length B_loc]"

text \<open>
  The copy of the whole matrix, the serial save and the serial load as all processes
  run them, the MPI and HDF5 calls succeeding. In the load, an inactive process
  receives the integers that the reading process sends: those of the state and the
  property in the archive.
\<close>

definition copy_to_world :: "'a world \<Rightarrow> 'a world \<Rightarrow> nat \<Rightarrow> error + 'a ScaLAPACKMatrix" where
  "copy_to_world W_A W_dest r = copy_to (pgemr2d_on W_A (grid (W_dest r))) 0 (W_A r) (W_dest r)"

definition save_serial_world ::
  "32 word \<times> 32 word \<Rightarrow> ('a::zero) world \<Rightarrow> nat \<Rightarrow> error + 'a hdf5_archive option" where
  "save_serial_world chunk_size W r =
     save_serial (pgemr2d_on W (grid (projr (one_grid_tmp (W r))))) 0 0 chunk_size (W r)"

definition load_serial_tmp_world :: "'a hdf5_archive \<Rightarrow> ('a::zero) world \<Rightarrow> 'a world" where
  "load_serial_tmp_world archive W r =
     projr (load_serial_tmp 0
              (case state_dataset archive of Some s \<Rightarrow> State_to_int s | None \<Rightarrow> - 1)
              (case property_dataset archive of Some p \<Rightarrow> Property_to_int p | None \<Rightarrow> - 1)
              archive (W r))"

definition load_serial_world ::
  "'a hdf5_archive \<Rightarrow> ('a::zero) world \<Rightarrow> nat \<Rightarrow> error + 'a ScaLAPACKMatrix" where
  "load_serial_world archive W r =
     load_serial (pgemr2d_on (load_serial_tmp_world archive W) (grid (W r))) 0 0
       (case state_dataset archive of Some s \<Rightarrow> State_to_int s | None \<Rightarrow> - 1)
       (case property_dataset archive of Some p \<Rightarrow> Property_to_int p | None \<Rightarrow> - 1)
       archive (W r)"

section \<open>Concrete inputs\<close>

text \<open>
  A communicator of one process with its 1x1 grid, and on it the 2x2 matrix with rows
  \<open>(4, 9)\<close> and \<open>(1, 3)\<close> in the local buffer, flagged as lower triangular: the
  entry \<open>9\<close> above the diagonal is not part of what the matrix stores.
\<close>

definition single_process_grid :: ProcessGrid where
  "single_process_grid = make_ProcessGrid 0 0 1 0 1 1"

definition stored_lower :: "State \<Rightarrow> int ScaLAPACKMatrix" where
  "stored_lower st =
     (projr (ScaLAPACKMatrix_init 2 2 single_process_grid 1 1 lower_triangular))
       \<lparr>values := [4, 1, 9, 3], state := st\<rparr>"



text \<open>
  The same grid with a symmetric 2x2 matrix and a 2x3 matrix. The demonstration kernels
  are arbitrary total functions of their arguments; on the integers that stand for
  numbers here, \<open>-1\<close> plays the part of NaN.
\<close>

definition symmetric_2x2 :: "int ScaLAPACKMatrix" where
  "symmetric_2x2 =
     (projr (ScaLAPACKMatrix_init 2 2 single_process_grid 1 1 symmetric))
       \<lparr>values := [4, 1, 1, 3]\<rparr>"

definition rectangular_2x3 :: "int ScaLAPACKMatrix" where
  "rectangular_2x3 =
     (projr (ScaLAPACKMatrix_init 2 3 single_process_grid 2 1 general))
       \<lparr>values := [1, 2, 3, 4, 5, 6]\<rparr>"

definition idle_pgemr2d :: "int pgemr2d_kernel" where
  "idle_pgemr2d = (\<lambda>m n A ia ja desc_A B ib jb desc_B ctxt. B)"

definition demo_ppotrf :: "int \<Rightarrow> int ppotrf_kernel" where
  "demo_ppotrf info = (\<lambda>uplo n A ia ja desc. (map (\<lambda>x. x + 1) A, info))"

definition demo_eigen_kernels :: "int eigen_kernels" where
  "demo_eigen_kernels =
     \<lparr> psyev = (\<lambda>jobz uplo n A ia ja desca w z iz jz descz lwork.
                  \<lparr>psyev_A = map (\<lambda>x. 0) A, psyev_ev = [1, 2], psyev_Z = [1, 0, 0, 1],
                   psyev_work0 = 8, psyev_info = 0\<rparr>),
       psyevx = (\<lambda>jobz range uplo n A ia ja desca vl vu il iu abstol m nz w orfac z iz jz descz
                   lwork liwork.
                  \<lparr>psyevx_A = map (\<lambda>x. 0) A,
                   psyevx_m = (if range = CHR ''V'' then 2 else iu - il + 1), psyevx_nz = 0,
                   psyevx_ev = [vl, vu], psyevx_Z = [1, 0, 0, 1],
                   psyevx_work0 = 8, psyevx_iwork0 = 4, psyevx_info = 0\<rparr>),
       plamch = (\<lambda>ctxt cmach. 1),
       isnan = (\<lambda>x. x = - 1),
       quiet_NaN = - 1 \<rparr>"

text \<open>
  Kernels of the eigensolver that tell the workspace query from the computation: with
  \<^verbatim>\<open>lwork = -1\<close> they return the buffers as they got them and the workspace sizes,
  otherwise they overwrite the matrix and fill in eigenvalues and eigenvectors.
\<close>

definition workspace_eigen_kernels :: "int eigen_kernels" where
  "workspace_eigen_kernels =
     \<lparr> psyev = (\<lambda>jobz uplo n A ia ja desca w z iz jz descz lwork.
                  if lwork = - 1
                  then \<lparr>psyev_A = A, psyev_ev = w, psyev_Z = z,
                        psyev_work0 = 8, psyev_info = 0\<rparr>
                  else \<lparr>psyev_A = map (\<lambda>x. 0) A, psyev_ev = [2, 5],
                        psyev_Z = (if jobz = CHR ''V'' then [1, 2, 3, 4] else z),
                        psyev_work0 = 8, psyev_info = 0\<rparr>),
       psyevx = (\<lambda>jobz range uplo n A ia ja desca vl vu il iu abstol m nz w orfac z iz jz descz
                   lwork liwork.
                  if lwork = - 1
                  then \<lparr>psyevx_A = A, psyevx_m = m, psyevx_nz = nz, psyevx_ev = w,
                        psyevx_Z = z, psyevx_work0 = 8, psyevx_iwork0 = 4, psyevx_info = 0\<rparr>
                  else \<lparr>psyevx_A = map (\<lambda>x. 7) A, psyevx_m = iu - il + 1, psyevx_nz = 0,
                        psyevx_ev = [5, 2],
                        psyevx_Z = (if jobz = CHR ''V'' then [3, 4, 0, 0] else z),
                        psyevx_work0 = 8, psyevx_iwork0 = 4, psyevx_info = 0\<rparr>),
       plamch = (\<lambda>ctxt cmach. 1),
       isnan = (\<lambda>x. x = - 1),
       quiet_NaN = - 1 \<rparr>"

text \<open>
  A communicator of three processes with a 1x1 grid, seen from the process \<open>rank\<close>, and
  on it a matrix of one row and seven columns and a narrow 2x2 matrix; the two builds
  with HDF5.
\<close>

definition three_process_grid :: "nat \<Rightarrow> ProcessGrid" where
  "three_process_grid rank = make_ProcessGrid 0 0 3 rank 1 1"

definition wide_1x7 :: "nat \<Rightarrow> int ScaLAPACKMatrix" where
  "wide_1x7 rank = projr (ScaLAPACKMatrix_init 1 7 (three_process_grid rank) 1 1 general)"

definition narrow_2x2 :: "nat \<Rightarrow> int ScaLAPACKMatrix" where
  "narrow_2x2 rank =
     (projr (ScaLAPACKMatrix_init 2 2 (three_process_grid rank) 1 1 symmetric))
       \<lparr>values := (if rank = 0 then [4, 1, 1, 3] else [])\<rparr>"

definition parallel_build :: configuration where
  "parallel_build = \<lparr>DEAL_II_WITH_HDF5 = True, H5_HAVE_PARALLEL = True\<rparr>"

definition serial_build :: configuration where
  "serial_build = \<lparr>DEAL_II_WITH_HDF5 = True, H5_HAVE_PARALLEL = False\<rparr>"


section \<open>Theorems\<close>

subsection \<open>Layout\<close>

lemma sdiv_nonneg: "0 \<le> a \<Longrightarrow> 0 \<le> b \<Longrightarrow> (a::int) sdiv b = a div b"
  by (simp add: signed_divide_int_def sgn_if)

lemma smod_nonneg: "0 \<le> a \<Longrightarrow> 0 \<le> b \<Longrightarrow> (a::int) smod b = a mod b"
  by (rule smod_mod_positive)

lemma owner_eq:
  assumes "0 \<le> g" "1 \<le> b" "1 \<le> p" "0 \<le> s" "s < p"
  shows "fst (owner_and_local g b p s) = (s + g div b) mod p"
  using assms
  by (simp add: owner_and_local_def indxg2p_def sdiv_nonneg smod_nonneg pos_imp_zdiv_nonneg_iff)

lemma local_eq:
  assumes "0 \<le> g" "1 \<le> b" "1 \<le> p"
  shows "snd (owner_and_local g b p s) = b * (g div (b * p)) + g mod b"
  using assms by (simp add: owner_and_local_def indxg2l_def sdiv_nonneg smod_nonneg)

lemma local_to_global_eq:
  assumes "0 \<le> l" "1 \<le> b" "1 \<le> p" "0 \<le> s" "s < p" "0 \<le> c" "c < p"
  shows "local_to_global l b c s p = p * b * (l div b) + l mod b + ((p + c - s) mod p) * b"
  using assms by (simp add: local_to_global_def indxl2g_def sdiv_nonneg smod_nonneg)

lemma cyclic_distance: "(p + (s + q) mod p - s) mod p = q mod (p::int)"
proof -
  have "(p + (s + q) mod p - s) mod p = ((s + q) mod p - s) mod p"
    by (metis add.commute add_diff_eq mod_add_self2)
  also have "\<dots> = (s + q - s) mod p"
    by (rule mod_diff_left_eq)
  finally show ?thesis by simp
qed

lemma owner_and_local_inverse:
  assumes "0 \<le> g" "1 \<le> b" "1 \<le> p" "0 \<le> s" "s < p"
  shows "(case owner_and_local g b p s of (c, l) \<Rightarrow> local_to_global l b c s p) = g"
proof -
  define q where "q = g div b"
  define c where "c = (s + q) mod p"
  define l where "l = b * (g div (b * p)) + g mod b"
  have c: "0 \<le> c" "c < p" using assms by (simp_all add: c_def)
  have q0: "0 \<le> q" using assms by (simp add: q_def pos_imp_zdiv_nonneg_iff)
  have gbp: "g div (b * p) = q div p" using assms by (simp add: q_def zdiv_zmult2_eq)
  have l0: "0 \<le> l" using assms q0 by (simp add: l_def gbp pos_imp_zdiv_nonneg_iff)
  have ldiv: "l div b = q div p"
    using assms by (simp add: l_def gbp)
  have lmod: "l mod b = g mod b"
    using assms by (simp add: l_def)
  have "local_to_global l b c s p = p * b * (l div b) + l mod b + ((p + c - s) mod p) * b"
    using assms l0 c by (rule_tac local_to_global_eq) simp_all
  also have "\<dots> = p * b * (q div p) + g mod b + (q mod p) * b"
    by (simp add: ldiv lmod c_def cyclic_distance)
  also have "\<dots> = b * (p * (q div p) + q mod p) + g mod b"
    by (simp only: distrib_left mult.assoc mult.commute mult.left_commute
          add.assoc add.commute add.left_commute)
  also have "\<dots> = g" by (simp add: q_def)
  finally have "local_to_global l b c s p = g" .
  moreover have "owner_and_local g b p s = (c, l)"
    using owner_eq[OF assms] local_eq[OF assms(1,2,3), of s]
    by (simp add: c_def l_def q_def prod_eq_iff)
  ultimately show ?thesis by simp
qed

text \<open>
  C2. For every global index \<open>g\<close>, block size \<open>b \<ge> 1\<close>, grid dimension \<open>p \<ge> 1\<close> and
  first-process coordinate \<open>s\<close> of the grid, mapping \<open>g\<close> to its owning coordinate and
  local index and mapping that local index back on the owning coordinate gives \<open>g\<close>.
\<close>

theorem layout_roundtrip:
  assumes "0 \<le> g" "1 \<le> b" "1 \<le> p" "0 \<le> s" "s < p"
  shows "(case owner_and_local g b p s of (c, l) \<Rightarrow> local_to_global l b c s p) = g"
  using assms by (rule owner_and_local_inverse)

theorem layout_roundtrip_witness:
  "(0::int) \<le> 7 \<and> (1::int) \<le> 2 \<and> (1::int) \<le> 3 \<and> (0::int) \<le> 1 \<and> (1::int) < 3
   \<and> owner_and_local 7 2 3 1 = (1, 3)
   \<and> (case owner_and_local 7 2 3 1 of (c, l) \<Rightarrow> local_to_global l 2 c 1 3) = 7"
proof -
  have "(case owner_and_local 7 2 3 1 of (c, l) \<Rightarrow> local_to_global l 2 c 1 3) = 7"
    using layout_roundtrip [of 7 2 3 1] by simp
  moreover have "owner_and_local 7 2 3 1 = (1, 3)"
    by (simp add: owner_and_local_def indxg2p_def indxg2l_def sdiv_nonneg smod_nonneg)
  ultimately show ?thesis by simp
qed

text \<open>
  The local extent that \<open>numroc\<close> counts on the owning coordinate covers the local
  index of every global index below \<open>n\<close>.
\<close>

lemma numroc_eq:
  assumes "0 \<le> n" "1 \<le> b" "1 \<le> p" "0 \<le> s" "s < p" "0 \<le> c" "c < p"
  shows "numroc n b c s p =
     (if (p + c - s) mod p < (n div b) mod p then (n div b div p) * b + b
      else if (p + c - s) mod p = (n div b) mod p then (n div b div p) * b + n mod b
      else (n div b div p) * b)"
proof -
  have "0 \<le> n div b" using assms by (simp add: pos_imp_zdiv_nonneg_iff)
  then show ?thesis
    using assms by (simp add: numroc_def Let_def sdiv_nonneg smod_nonneg)
qed

lemma numroc_lower:
  assumes "0 \<le> g" "g < n" "1 \<le> b" "1 \<le> p" "0 \<le> s" "s < p"
  shows "snd (owner_and_local g b p s) < numroc n b (fst (owner_and_local g b p s)) s p"
proof -
  define q where "q = g div b"
  define K where "K = n div b"
  define c where "c = (s + q) mod p"
  have c: "0 \<le> c" "c < p" using assms by (simp_all add: c_def)
  have q0: "0 \<le> q" using assms by (simp add: q_def pos_imp_zdiv_nonneg_iff)
  have qK: "q \<le> K" unfolding q_def K_def using assms by (intro zdiv_mono1) simp_all
  have own: "fst (owner_and_local g b p s) = c"
    using owner_eq[OF assms(1,3,4,5,6)] by (simp add: c_def q_def)
  have loc: "snd (owner_and_local g b p s) = b * (q div p) + g mod b"
    using local_eq[OF assms(1,3,4), of s] assms by (simp add: q_def zdiv_zmult2_eq)
  have d: "(p + c - s) mod p = q mod p"
    by (simp add: c_def cyclic_distance)
  have n0: "0 \<le> n" using assms by simp
  have nr: "numroc n b c s p =
     (if q mod p < K mod p then (K div p) * b + b
      else if q mod p = K mod p then (K div p) * b + n mod b
      else (K div p) * b)"
    using numroc_eq[OF n0 assms(3,4,5,6) c] by (simp add: d K_def)
  have gm: "0 \<le> g mod b" "g mod b < b" using assms by simp_all
  have nm: "0 \<le> n mod b" using assms by simp
  have dq: "q div p \<le> K div p" using qK assms by (intro zdiv_mono1) simp_all
  show ?thesis
  proof (cases "q div p < K div p")
    case True
    then have "q div p + 1 \<le> K div p" by simp
    then have "b * (q div p + 1) \<le> b * (K div p)"
      using assms by (intro mult_left_mono) simp_all
    then have "b * (q div p) + g mod b < (K div p) * b"
      using gm by (simp add: algebra_simps)
    moreover have "(K div p) * b \<le> numroc n b c s p"
      using nr nm assms by auto
    ultimately show ?thesis by (simp add: own loc)
  next
    case False
    with dq have e: "q div p = K div p" by simp
    have qm: "q mod p \<le> K mod p"
    proof -
      have "q = p * (q div p) + q mod p" "K = p * (K div p) + K mod p" by simp_all
      with qK e show ?thesis by (metis add_le_cancel_left)
    qed
    show ?thesis
    proof (cases "q mod p < K mod p")
      case True
      then show ?thesis using nr gm by (simp add: own loc e algebra_simps)
    next
      case False
      with qm have m: "q mod p = K mod p" by simp
      have "q = K" using e m by (metis mult_div_mod_eq)
      then have "g div b = n div b" by (simp add: q_def K_def)
      moreover have "g = b * (g div b) + g mod b" "n = b * (n div b) + n mod b" by simp_all
      ultimately have "g mod b < n mod b" using assms(2) by (metis add_less_cancel_left)
      then show ?thesis using nr m by (simp add: own loc e algebra_simps)
    qed
  qed
qed

lemma owner_range:
  assumes "0 \<le> g" "1 \<le> b" "1 \<le> p" "0 \<le> s" "s < p"
  shows "0 \<le> fst (owner_and_local g b p s)" "fst (owner_and_local g b p s) < p"
    and "0 \<le> snd (owner_and_local g b p s)"
proof -
  show "0 \<le> fst (owner_and_local g b p s)" "fst (owner_and_local g b p s) < p"
    using assms by (simp_all add: owner_eq)
  have "0 \<le> g div (b * p)" using assms by (simp add: pos_imp_zdiv_nonneg_iff)
  moreover have "0 \<le> g mod b" using assms by simp
  ultimately show "0 \<le> snd (owner_and_local g b p s)"
    using assms by (simp add: local_eq)
qed

text \<open>The fields of the matrix that the constructor returns.\<close>

lemma ScaLAPACKMatrix_init_Inr:
  assumes "ScaLAPACKMatrix_init nr nc g mb nb pr = Inr (M :: ('a::zero) ScaLAPACKMatrix)"
  shows "0 < mb \<and> mb \<le> nr \<and> 0 < nb \<and> nb \<le> nc"
    and "grid M = g \<and> n_rows M = nr \<and> n_columns M = nc
         \<and> row_block_size M = mb \<and> column_block_size M = nb
         \<and> first_process_row M = 0 \<and> first_process_column M = 0
         \<and> submatrix_row M = 1 \<and> submatrix_column M = 1 \<and> uplo M = CHR ''L''"
    and "mpi_process_is_active g \<Longrightarrow>
           n_local_rows M = numroc nr mb (this_process_row g) 0 (n_process_rows g)
           \<and> n_local_columns M = numroc nc nb (this_process_column g) 0 (n_process_columns g)
           \<and> length (values M) = nat (n_local_rows M * n_local_columns M)
           \<and> descriptor M ! 0 = 1
           \<and> descriptor M ! 4 = max 1 mb \<and> descriptor M ! 5 = max 1 nb
           \<and> descriptor M ! 6 = max 0 (min 0 (n_process_rows g - 1))
           \<and> descriptor M ! 7 = max 0 (min 0 (n_process_columns g - 1))
           \<and> max 1 (n_local_rows M) \<le> descriptor M ! 8"
    and "mpi_process_is_active g \<Longrightarrow> 1 \<le> n_process_rows g \<Longrightarrow>
           descriptor M ! 8 = max 1 (n_local_rows M)"
    and "\<not> mpi_process_is_active g \<Longrightarrow> values M = []"
  using assms
  by (auto simp: ScaLAPACKMatrix_init_def descinit_def Cblacs_gridinfo_def Let_def
      split: if_splits prod.splits)

text \<open>
  The source's \<^verbatim>\<open>global_row\<close> and \<^verbatim>\<open>global_column\<close> are the inverse of the layout on
  the process that owns the index: on a constructed matrix, the local index of a global
  row (column) that this process owns is within the local range, and is mapped back to
  the global index.
\<close>

lemma global_row_owner:
  assumes M: "ScaLAPACKMatrix_init nr nc g mb nb pr = Inr (M :: ('a::zero) ScaLAPACKMatrix)"
    and act: "mpi_process_is_active g" and R: "1 \<le> n_process_rows g"
    and i: "0 \<le> i" "i < nr"
    and own: "fst (owner_and_local i mb (n_process_rows g) 0) = this_process_row g"
  shows "global_row M (nat (snd (owner_and_local i mb (n_process_rows g) 0))) = Inr (nat i)"
proof -
  let ?R = "n_process_rows g"
  let ?l = "snd (owner_and_local i mb ?R 0)"
  note f = ScaLAPACKMatrix_init_Inr(1,2)[OF M]
  have n: "n_local_rows M = numroc nr mb (this_process_row g) 0 ?R"
    using ScaLAPACKMatrix_init_Inr(3)[OF M act] by simp
  have mb: "1 \<le> mb" using f(1) by simp
  have R0: "(0::int) \<le> 0" "0 < ?R" using R by simp_all
  have l0: "0 \<le> ?l" by (rule owner_range(3)[OF i(1) mb R R0])
  have l1: "?l < n_local_rows M"
    unfolding n own[symmetric] by (rule numroc_lower[OF i mb R R0])
  have "local_to_global ?l mb (this_process_row g) 0 ?R = i"
    using owner_and_local_inverse[OF i(1) mb R R0] own by (simp add: case_prod_beta)
  then have "indxl2g (?l + 1) mb (this_process_row g) 0 ?R - 1 = i"
    by (simp add: local_to_global_def)
  then show ?thesis
    using l0 l1 f(2) by (simp add: global_row_def Let_def)
qed

lemma global_column_owner:
  assumes M: "ScaLAPACKMatrix_init nr nc g mb nb pr = Inr (M :: ('a::zero) ScaLAPACKMatrix)"
    and act: "mpi_process_is_active g" and C: "1 \<le> n_process_columns g"
    and j: "0 \<le> j" "j < nc"
    and own: "fst (owner_and_local j nb (n_process_columns g) 0) = this_process_column g"
  shows "global_column M (nat (snd (owner_and_local j nb (n_process_columns g) 0)))
           = Inr (nat j)"
proof -
  let ?C = "n_process_columns g"
  let ?l = "snd (owner_and_local j nb ?C 0)"
  note f = ScaLAPACKMatrix_init_Inr(1,2)[OF M]
  have n: "n_local_columns M = numroc nc nb (this_process_column g) 0 ?C"
    using ScaLAPACKMatrix_init_Inr(3)[OF M act] by simp
  have nb: "1 \<le> nb" using f(1) by simp
  have C0: "(0::int) \<le> 0" "0 < ?C" using C by simp_all
  have l0: "0 \<le> ?l" by (rule owner_range(3)[OF j(1) nb C C0])
  have l1: "?l < n_local_columns M"
    unfolding n own[symmetric] by (rule numroc_lower[OF j nb C C0])
  have "local_to_global ?l nb (this_process_column g) 0 ?C = j"
    using owner_and_local_inverse[OF j(1) nb C C0] own by (simp add: case_prod_beta)
  then have "indxl2g (?l + 1) nb (this_process_column g) 0 ?C - 1 = j"
    by (simp add: local_to_global_def)
  then show ?thesis
    using l0 l1 f(2) by (simp add: global_column_def Let_def)
qed

subsection \<open>Copy into a replicated dense matrix\<close>












subsection \<open>Copy between distributed matrices\<close>

text \<open>
  C9. The copy of a sub-block with \<open>submatrix_size.first = 0\<close> or
  \<open>submatrix_size.second = 0\<close> returns at once: the destination is unchanged in every
  field, and no offset is checked.
\<close>

theorem copy_to_submatrix_empty:
  assumes "fst submatrix_size = 0 \<or> snd submatrix_size = 0"
  shows "copy_to_submatrix pgemr2d ierr A B offset_A offset_B submatrix_size = Inr B"
  using assms by (simp add: copy_to_submatrix_def)

theorem copy_to_submatrix_empty_witness:
  "(fst (0 :: 32 word, 5 :: 32 word) = 0 \<or> snd (0 :: 32 word, 5 :: 32 word) = 0)
   \<and> copy_to_submatrix idle_pgemr2d 0 (stored_lower matrix) (stored_lower cholesky)
        (100, 100) (- 1, - 1) (0, 5) = Inr (stored_lower cholesky)"
  using copy_to_submatrix_empty [of "(0, 5)" idle_pgemr2d 0 "stored_lower matrix"
      "stored_lower cholesky" "(100, 100)" "(- 1, - 1)"]
  by simp

text \<open>
  C8, as the code has it. Whenever the copy of the whole matrix returns, the destination
  has the state and the property of the source; it returns when the shapes agree, the
  descriptors of the active processes are those of dense matrices and the MPI calls
  succeed. The copy of a sub-block leaves the destination in the state \<open>matrix\<close> when
  it returns and the sub-block is not empty, not always.
\<close>

theorem copy_to_state_property:
  "(copy_to pgemr2d ierr A dest = Inr dest' \<longrightarrow>
      state dest' = state A \<and> property dest' = property A)
   \<and> (n_rows A = n_rows dest \<and> n_columns A = n_columns dest
      \<and> (mpi_process_is_active (grid A) \<longrightarrow> descriptor A ! 0 = 1)
      \<and> (mpi_process_is_active (grid dest) \<longrightarrow> descriptor dest ! 0 = 1)
      \<and> ierr = 0 \<longrightarrow>
      (\<exists>d. copy_to pgemr2d ierr A dest = Inr d))
   \<and> (copy_to_submatrix pgemr2d ierr A B offset_A offset_B submatrix_size = Inr B'
      \<and> fst submatrix_size \<noteq> 0 \<and> snd submatrix_size \<noteq> 0 \<longrightarrow> state B' = matrix)"
proof (intro conjI impI)
  assume "copy_to pgemr2d ierr A dest = Inr dest'"
  then show "state dest' = state A" "property dest' = property A"
    by (auto simp: copy_to_def Let_def split: if_splits)
next
  assume "n_rows A = n_rows dest \<and> n_columns A = n_columns dest
      \<and> (mpi_process_is_active (grid A) \<longrightarrow> descriptor A ! 0 = 1)
      \<and> (mpi_process_is_active (grid dest) \<longrightarrow> descriptor dest ! 0 = 1)
      \<and> ierr = 0"
  then show "\<exists>d. copy_to pgemr2d ierr A dest = Inr d"
    by (auto simp: copy_to_def Let_def)
next
  assume "copy_to_submatrix pgemr2d ierr A B offset_A offset_B submatrix_size = Inr B'
      \<and> fst submatrix_size \<noteq> 0 \<and> snd submatrix_size \<noteq> 0"
  then show "state B' = matrix"
    by (auto simp: copy_to_submatrix_def Let_def split: if_splits)
qed

theorem copy_to_state_property_witness:
  "\<not> isl (copy_to idle_pgemr2d 0 (stored_lower cholesky) symmetric_2x2)
   \<and> state (projr (copy_to idle_pgemr2d 0 (stored_lower cholesky) symmetric_2x2)) = cholesky
   \<and> property (projr (copy_to idle_pgemr2d 0 (stored_lower cholesky) symmetric_2x2))
       = lower_triangular
   \<and> \<not> isl (copy_to_submatrix idle_pgemr2d 0 symmetric_2x2 (stored_lower cholesky)
              (0, 0) (1, 1) (1, 1))
   \<and> state (projr (copy_to_submatrix idle_pgemr2d 0 symmetric_2x2 (stored_lower cholesky)
              (0, 0) (1, 1) (1, 1))) = matrix"
proof -
  let ?c = "copy_to idle_pgemr2d 0 (stored_lower cholesky) symmetric_2x2"
  let ?s = "copy_to_submatrix idle_pgemr2d 0 symmetric_2x2 (stored_lower cholesky)
              (0, 0) (1, 1) (1, 1)"
  have c: "\<not> isl ?c" by code_simp
  have s: "\<not> isl ?s" by code_simp
  have sc: "state (stored_lower cholesky) = cholesky"
    and pc: "property (stored_lower cholesky) = lower_triangular"
    by code_simp+
  from c have c': "?c = Inr (projr ?c)" by simp
  from s have s': "?s = Inr (projr ?s)" by simp
  have nz: "fst (1 :: 32 word, 1 :: 32 word) \<noteq> 0 \<and> snd (1 :: 32 word, 1 :: 32 word) \<noteq> 0"
    by simp
  from copy_to_state_property [where pgemr2d = idle_pgemr2d and ierr = 0
      and A = "stored_lower cholesky" and dest = symmetric_2x2 and dest' = "projr ?c"] c' sc pc
  have 1: "state (projr ?c) = cholesky \<and> property (projr ?c) = lower_triangular"
    by simp
  from copy_to_state_property [where pgemr2d = idle_pgemr2d and ierr = 0
      and A = symmetric_2x2 and B = "stored_lower cholesky" and offset_A = "(0, 0)"
      and offset_B = "(1, 1)" and submatrix_size = "(1, 1)" and B' = "projr ?s"] s' nz
  have 2: "state (projr ?s) = matrix"
    by blast
  from c s 1 2 show ?thesis by simp
qed

text \<open>
  The claim as stated has the copy of a sub-block always set the state of the destination
  to \<open>matrix\<close>. With a sub-block of no columns the copy returns before it touches the
  destination, and a destination in the state \<open>cholesky\<close> stays in it.
\<close>

theorem copy_to_submatrix_state_kept:
  "snd (2 :: 32 word, 0 :: 32 word) = 0
   \<and> state (stored_lower cholesky) = cholesky
   \<and> map_sum id state (copy_to_submatrix idle_pgemr2d 0 symmetric_2x2 (stored_lower cholesky)
                         (0, 0) (0, 0) (2, 0)) = Inr cholesky
   \<and> cholesky \<noteq> matrix"
  by code_simp

subsection \<open>Cholesky factorisation\<close>

text \<open>
  C4 fails on the code. \<^verbatim>\<open>compute_cholesky_factorization\<close> fails on a matrix that is not
  square and on a status of the kernel that is not zero, and on success it sets the
  property of the triangle that \<open>uplo\<close> names and the state \<open>cholesky\<close>, as the claim
  says. But the test of the state that the claim requires, and that the other operations
  of the class make, is missing: for a square matrix in any state, with the status zero
  on an active process, it runs the kernel and returns with the state \<open>cholesky\<close>.
\<close>

theorem compute_cholesky_factorization_any_state:
  "(n_columns A \<noteq> n_rows A \<longrightarrow> isl (compute_cholesky_factorization ppotrf A))
   \<and> (n_columns A = n_rows A \<and> mpi_process_is_active (grid A)
        \<and> snd (ppotrf (uplo A) (n_columns A) (values A) (submatrix_row A)
                 (submatrix_column A) (descriptor A)) \<noteq> 0 \<longrightarrow>
        isl (compute_cholesky_factorization ppotrf A))
   \<and> (n_columns A = n_rows A
        \<and> (mpi_process_is_active (grid A) \<longrightarrow>
             snd (ppotrf (uplo A) (n_columns A) (values A) (submatrix_row A)
                    (submatrix_column A) (descriptor A)) = 0) \<longrightarrow>
        (\<exists>A'. compute_cholesky_factorization ppotrf A = Inr A'
               \<and> state A' = cholesky
               \<and> property A' = (if uplo A = CHR ''L'' then lower_triangular
                                 else upper_triangular)))"
  by (auto simp: compute_cholesky_factorization_def split: prod.splits)

theorem compute_cholesky_factorization_any_state_witness:
  "n_columns rectangular_2x3 \<noteq> n_rows rectangular_2x3
   \<and> isl (compute_cholesky_factorization (demo_ppotrf 0) rectangular_2x3)
   \<and> n_columns symmetric_2x2 = n_rows symmetric_2x2
   \<and> mpi_process_is_active (grid symmetric_2x2)
   \<and> isl (compute_cholesky_factorization (demo_ppotrf 3) symmetric_2x2)
   \<and> (\<exists>A'. compute_cholesky_factorization (demo_ppotrf 0) symmetric_2x2 = Inr A'
          \<and> state A' = cholesky \<and> property A' = lower_triangular)"
proof -
  have r: "n_columns rectangular_2x3 \<noteq> n_rows rectangular_2x3" by code_simp
  have q: "n_columns symmetric_2x2 = n_rows symmetric_2x2" by code_simp
  have a: "mpi_process_is_active (grid symmetric_2x2)" by code_simp
  have u: "uplo symmetric_2x2 = CHR ''L''" by code_simp
  have k3: "snd (demo_ppotrf 3 u n v i j d) \<noteq> 0" for u n v i j d
    by (simp add: demo_ppotrf_def)
  have k0: "snd (demo_ppotrf 0 u n v i j d) = 0" for u n v i j d
    by (simp add: demo_ppotrf_def)
  have 1: "isl (compute_cholesky_factorization (demo_ppotrf 0) rectangular_2x3)"
    using compute_cholesky_factorization_any_state [of rectangular_2x3 "demo_ppotrf 0"] r
    by blast
  have 2: "isl (compute_cholesky_factorization (demo_ppotrf 3) symmetric_2x2)"
    using compute_cholesky_factorization_any_state [of symmetric_2x2 "demo_ppotrf 3"] q a k3
    by blast
  have 3: "\<exists>A'. compute_cholesky_factorization (demo_ppotrf 0) symmetric_2x2 = Inr A'
          \<and> state A' = cholesky \<and> property A' = lower_triangular"
    using compute_cholesky_factorization_any_state [of symmetric_2x2 "demo_ppotrf 0"] q k0 u
    by simp
  from r q a 1 2 3 show ?thesis by blast
qed

text \<open>
  The claim makes the factorisation available from the state \<open>matrix\<close> only. On a square
  matrix in the state \<open>unusable\<close> the code runs the kernel all the same and ends in the
  state \<open>cholesky\<close>; on a matrix that holds a factor already (state \<open>cholesky\<close>) it
  runs the kernel on the factor, here the kernel that adds one to every entry, and
  calls the result a factor again.
\<close>

theorem compute_cholesky_factorization_from_unusable:
  "state (stored_lower unusable) = unusable
   \<and> map_sum id state (compute_cholesky_factorization (demo_ppotrf 0) (stored_lower unusable))
       = Inr cholesky
   \<and> state (stored_lower cholesky) = cholesky
   \<and> values (stored_lower cholesky) = [4, 1, 9, 3]
   \<and> map_sum id (\<lambda>A'. (state A', values A'))
        (compute_cholesky_factorization (demo_ppotrf 0) (stored_lower cholesky))
       = Inr (cholesky, [5, 2, 10, 4])"
  by code_simp

subsection \<open>Symmetric eigenvalue problems\<close>

lemma std_min_commute: "std_min a b = std_min b (a::'a::linorder)"
  by (auto simp: std_min_def)

lemma std_max_commute: "std_max a b = std_max b (a::'a::linorder)"
  by (auto simp: std_max_def)

lemma eigenpairs_symmetric_compute_limits_commute:
  "eigenpairs_symmetric_compute K ce idx (x, y) E m ev A
   = eigenpairs_symmetric_compute K ce idx (y, x) E m ev A"
  unfolding eigenpairs_symmetric_compute_def fst_conv snd_conv
  by (simp only: std_min_commute [of x y] std_max_commute [of x y] disj_commute [of "isnan K x"])

lemma eigenpairs_symmetric_limits_commute:
  "eigenpairs_symmetric K rm rv ce idx (x, y) A = eigenpairs_symmetric K rm rv ce idx (y, x) A"
  unfolding eigenpairs_symmetric_def fst_conv snd_conv
  by (simp only: eigenpairs_symmetric_compute_limits_commute [of K ce idx x y]
        disj_commute [of "isnan K x"])

text \<open>
  C10. \<^verbatim>\<open>eigenpairs_symmetric_by_index\<close> with two indices in range, and
  \<^verbatim>\<open>eigenpairs_symmetric_by_value\<close> with two limits that are no NaN, return the same
  with the two components of the pair exchanged.
\<close>

theorem eigenpairs_symmetric_limits_either_order:
  "(a < word_of_int (n_rows A) \<and> b < word_of_int (n_rows A) \<longrightarrow>
      eigenpairs_symmetric_by_index K rm rv (a, b) ce A
      = eigenpairs_symmetric_by_index K rm rv (b, a) ce A)
   \<and> (\<not> isnan K x \<and> \<not> isnan K y \<longrightarrow>
      eigenpairs_symmetric_by_value K rm rv (x, y) ce A
      = eigenpairs_symmetric_by_value K rm rv (y, x) ce A)"
proof (intro conjI impI)
  show "eigenpairs_symmetric_by_index K rm rv (a, b) ce A
      = eigenpairs_symmetric_by_index K rm rv (b, a) ce A"
    unfolding eigenpairs_symmetric_by_index_def fst_conv snd_conv
    by (simp add: std_min_commute [of a b] std_max_commute [of a b])
next
  assume "\<not> isnan K x \<and> \<not> isnan K y"
  then show "eigenpairs_symmetric_by_value K rm rv (x, y) ce A
      = eigenpairs_symmetric_by_value K rm rv (y, x) ce A"
    by (simp add: eigenpairs_symmetric_by_value_def
          eigenpairs_symmetric_limits_commute [of _ _ _ _ _ x y])
qed

theorem eigenpairs_symmetric_limits_either_order_witness:
  "(1 :: 32 word) < word_of_int (n_rows symmetric_2x2)
   \<and> (0 :: 32 word) < word_of_int (n_rows symmetric_2x2)
   \<and> \<not> isnan demo_eigen_kernels 7 \<and> \<not> isnan demo_eigen_kernels 5
   \<and> \<not> isl (eigenpairs_symmetric_by_index demo_eigen_kernels 0 [] (1, 1) True symmetric_2x2)
   \<and> eigenpairs_symmetric_by_index demo_eigen_kernels 0 [] (1, 0) True symmetric_2x2
       = eigenpairs_symmetric_by_index demo_eigen_kernels 0 [] (0, 1) True symmetric_2x2
   \<and> map_sum id fst (eigenpairs_symmetric_by_value demo_eigen_kernels 0 [] (5, 7) False
                        symmetric_2x2) = Inr [5, 7]
   \<and> eigenpairs_symmetric_by_value demo_eigen_kernels 0 [] (7, 5) False symmetric_2x2
       = eigenpairs_symmetric_by_value demo_eigen_kernels 0 [] (5, 7) False symmetric_2x2"
proof -
  have n: "(1 :: 32 word) < word_of_int (n_rows symmetric_2x2)"
      "(0 :: 32 word) < word_of_int (n_rows symmetric_2x2)"
    by code_simp+
  have v: "\<not> isnan demo_eigen_kernels 7" "\<not> isnan demo_eigen_kernels 5"
    by (simp_all add: demo_eigen_kernels_def)
  have i: "\<not> isl (eigenpairs_symmetric_by_index demo_eigen_kernels 0 [] (1, 1) True
                    symmetric_2x2)"
    by code_simp
  have r: "map_sum id fst (eigenpairs_symmetric_by_value demo_eigen_kernels 0 [] (5, 7) False
                        symmetric_2x2) = Inr [5, 7]"
    by code_simp
  have "eigenpairs_symmetric_by_index demo_eigen_kernels 0 [] (1, 0) True symmetric_2x2
       = eigenpairs_symmetric_by_index demo_eigen_kernels 0 [] (0, 1) True symmetric_2x2"
    by (rule eigenpairs_symmetric_limits_either_order
          [where a = 1 and b = 0 and A = symmetric_2x2 and x = 7 and y = 5,
           THEN conjunct1, THEN mp, OF conjI [OF n]])
  moreover
  have "eigenpairs_symmetric_by_value demo_eigen_kernels 0 [] (7, 5) False symmetric_2x2
       = eigenpairs_symmetric_by_value demo_eigen_kernels 0 [] (5, 7) False symmetric_2x2"
    by (rule eigenpairs_symmetric_limits_either_order
          [where a = 1 and b = 0 and A = symmetric_2x2 and x = 7 and y = 5,
           THEN conjunct2, THEN mp, OF conjI [OF v]])
  ultimately show ?thesis using n v i r by simp
qed

text \<open>
  What an active process computes in \<^verbatim>\<open>eigenpairs_symmetric\<close>: \<open>q\<close> is the workspace
  query (\<^verbatim>\<open>lwork = -1\<close>), \<open>r\<close> the computation, called with what the query left and the
  workspace it asked for. The buffers returned are those of \<open>r\<close>.
\<close>

lemma eigenpairs_symmetric_compute_psyev:
  fixes A :: "('a::{zero,times,numeral,linorder}) ScaLAPACKMatrix"
  assumes a: "fst idx = invalid_unsigned_int \<or> snd idx = invalid_unsigned_int"
      "isnan K (fst lim) \<or> isnan K (snd lim)"
    and q: "q = psyev K (if ce then CHR ''V'' else CHR ''N'') (uplo A) (n_rows A) (values A)
                  (submatrix_row A) (submatrix_column A) (descriptor A) ev
                  (if ce then values E else [])
                  (submatrix_row E) (submatrix_column E) (descriptor E) (- 1)"
    and r: "r = psyev K (if ce then CHR ''V'' else CHR ''N'') (uplo A) (n_rows A) (psyev_A q)
                  (submatrix_row A) (submatrix_column A) (descriptor A) (psyev_ev q)
                  (if ce then psyev_Z q else [])
                  (submatrix_row E) (submatrix_column E) (descriptor E) (psyev_work0 q)"
    and i: "psyev_info q = 0" "psyev_info r = 0"
  shows "eigenpairs_symmetric_compute K ce idx lim E m ev A
           = Inr (A\<lparr>values := psyev_A r\<rparr>, (if ce then E\<lparr>values := psyev_Z r\<rparr> else E),
                  m, psyev_ev r)"
proof -
  have "eigenpairs_symmetric_compute K ce idx lim E m ev A
          = (if psyev_info q \<noteq> 0 then Inl (ExcErrorCode ''psyev'' (psyev_info q))
             else if psyev_info r \<noteq> 0 then Inl (ExcErrorCode ''psyev'' (psyev_info r))
             else Inr (A\<lparr>values := psyev_A r\<rparr>,
                       (if ce then E\<lparr>values := psyev_Z r\<rparr> else E), m, psyev_ev r))"
    unfolding eigenpairs_symmetric_compute_def Let_def q r
    by (simp only: a simp_thms if_True if_False)
  then show ?thesis by (simp add: i)
qed

lemma eigenpairs_symmetric_compute_psyevx:
  fixes A :: "('a::{zero,times,numeral,linorder}) ScaLAPACKMatrix"
  assumes uv: "use_values = (\<not> (isnan K (fst lim) \<or> isnan K (snd lim)))"
    and ui: "use_indices
               = (\<not> (fst idx = invalid_unsigned_int \<or> snd idx = invalid_unsigned_int))"
    and some: "use_indices \<or> use_values"
    and jobz: "jobz = (if ce then CHR ''V'' else CHR ''N'')"
    and rng: "rng = (if \<not> use_indices then (if \<not> use_values then CHR ''A'' else CHR ''V'')
                     else CHR ''I'')"
    and vl: "vl = (if \<not> use_indices \<and> use_values then std_min (fst lim) (snd lim) else 0)"
    and vu: "vu = (if \<not> use_indices \<and> use_values then std_max (fst lim) (snd lim) else 0)"
    and il: "il = (if use_indices then sint (std_min (fst idx) (snd idx) + 1) else 1)"
    and iu: "iu = (if use_indices then sint (std_max (fst idx) (snd idx) + 1) else 1)"
    and abstol: "abstol = plamch K (blacs_context (grid A)) (if ce then CHR ''U'' else CHR ''S'') * 2"
    and qx: "qx = psyevx K jobz rng (uplo A) (n_rows A) (values A)
                    (submatrix_row A) (submatrix_column A) (descriptor A)
                    vl vu il iu abstol m 0 ev 0
                    (if ce then values E else [])
                    (submatrix_row E) (submatrix_column E) (descriptor E) (- 1) (- 1)"
    and rx: "rx = psyevx K jobz rng (uplo A) (n_rows A) (psyevx_A qx)
                    (submatrix_row A) (submatrix_column A) (descriptor A)
                    vl vu il iu abstol (psyevx_m qx) (psyevx_nz qx) (psyevx_ev qx) 0
                    (if ce then psyevx_Z qx else [])
                    (submatrix_row E) (submatrix_column E) (descriptor E)
                    (psyevx_work0 qx) (psyevx_iwork0 qx)"
    and i: "psyevx_info qx = 0" "0 < psyevx_iwork0 qx" "psyevx_info rx = 0"
  shows "eigenpairs_symmetric_compute K ce idx lim E m ev A
           = Inr (A\<lparr>values := psyevx_A rx\<rparr>, (if ce then E\<lparr>values := psyevx_Z rx\<rparr> else E),
                  psyevx_m rx, psyevx_ev rx)"
proof -
  have n: "\<not> ((fst idx = invalid_unsigned_int \<or> snd idx = invalid_unsigned_int)
              \<and> (isnan K (fst lim) \<or> isnan K (snd lim)))"
    using some unfolding ui uv by blast
  have "eigenpairs_symmetric_compute K ce idx lim E m ev A
          = (if psyevx_info qx \<noteq> 0 then Inl (ExcErrorCode ''psyevx'' (psyevx_info qx))
             else if \<not> 0 < psyevx_iwork0 qx then Inl ExcInternalError
             else if psyevx_info rx \<noteq> 0 then Inl (ExcErrorCode ''psyevx'' (psyevx_info rx))
             else Inr (A\<lparr>values := psyevx_A rx\<rparr>,
                       (if ce then E\<lparr>values := psyevx_Z rx\<rparr> else E),
                       psyevx_m rx, psyevx_ev rx))"
    unfolding eigenpairs_symmetric_compute_def Let_def qx rx jobz rng vl vu il iu abstol ui uv
    by (simp only: n simp_thms if_True if_False)
  then show ?thesis by (simp add: i)
qed

text \<open>
  C6. On a matrix in the state \<open>matrix\<close> with the property \<open>symmetric\<close>, with at most
  one of the two selectors given, once the scratch matrix is built and, on an active
  process, the workspace query and the computation of the kernel (\<open>q\<close> and \<open>r\<close> for
  \<^verbatim>\<open>psyev\<close> when no selector is given, \<open>qx\<close> and \<open>rx\<close> for \<^verbatim>\<open>psyevx\<close> otherwise) have
  reported success, \<^verbatim>\<open>eigenpairs_symmetric\<close> returns. If eigenvectors were asked for, the
  state is \<open>eigenvalues\<close> and the buffer of an active process is the buffer of
  eigenvectors that the computation, not the query, filled for the scratch matrix;
  otherwise the state is \<open>unusable\<close> and the buffer is what the computation left of the
  matrix. An active process returns the first \<open>m\<close> eigenvalues of the computation; the
  buffer of an inactive process is untouched.
\<close>

theorem eigenpairs_symmetric_final_state:
  fixes A :: "('a::{zero,times,numeral,linorder}) ScaLAPACKMatrix"
  assumes st: "state A = matrix" and pr: "property A = symmetric"
    and uv: "use_values = (\<not> (isnan K (fst lim) \<or> isnan K (snd lim)))"
    and ui: "use_indices
               = (\<not> (fst idx = invalid_unsigned_int \<or> snd idx = invalid_unsigned_int))"
    and sel: "\<not> (use_values \<and> use_indices)"
    and sc: "eigenvectors_scratch ce A = Inr scratch"
    and jobz: "jobz = (if ce then CHR ''V'' else CHR ''N'')"
    and rng: "rng = (if \<not> use_indices then (if \<not> use_values then CHR ''A'' else CHR ''V'')
                     else CHR ''I'')"
    and vl: "vl = (if \<not> use_indices \<and> use_values then std_min (fst lim) (snd lim) else 0)"
    and vu: "vu = (if \<not> use_indices \<and> use_values then std_max (fst lim) (snd lim) else 0)"
    and il: "il = (if use_indices then sint (std_min (fst idx) (snd idx) + 1) else 1)"
    and iu: "iu = (if use_indices then sint (std_max (fst idx) (snd idx) + 1) else 1)"
    and abstol: "abstol = plamch K (blacs_context (grid A)) (if ce then CHR ''U'' else CHR ''S'') * 2"
    and w: "w = replicate (nat (n_rows A)) 0"
    and z: "z = (if ce then values scratch else [])"
    and q: "q = psyev K jobz (uplo A) (n_rows A) (values A)
                  (submatrix_row A) (submatrix_column A) (descriptor A) w
                  z (submatrix_row scratch) (submatrix_column scratch) (descriptor scratch)
                  (- 1)"
    and r: "r = psyev K jobz (uplo A) (n_rows A) (psyev_A q)
                  (submatrix_row A) (submatrix_column A) (descriptor A) (psyev_ev q)
                  (if ce then psyev_Z q else [])
                  (submatrix_row scratch) (submatrix_column scratch) (descriptor scratch)
                  (psyev_work0 q)"
    and qx: "qx = psyevx K jobz rng (uplo A) (n_rows A) (values A)
                    (submatrix_row A) (submatrix_column A) (descriptor A)
                    vl vu il iu abstol (n_rows A) 0 w 0
                    z (submatrix_row scratch) (submatrix_column scratch) (descriptor scratch)
                    (- 1) (- 1)"
    and rx: "rx = psyevx K jobz rng (uplo A) (n_rows A) (psyevx_A qx)
                    (submatrix_row A) (submatrix_column A) (descriptor A)
                    vl vu il iu abstol (psyevx_m qx) (psyevx_nz qx) (psyevx_ev qx) 0
                    (if ce then psyevx_Z qx else [])
                    (submatrix_row scratch) (submatrix_column scratch) (descriptor scratch)
                    (psyevx_work0 qx) (psyevx_iwork0 qx)"
    and ok: "mpi_process_is_active (grid A) \<Longrightarrow>
               (if \<not> use_indices \<and> \<not> use_values
                then psyev_info q = 0 \<and> psyev_info r = 0
                else psyevx_info qx = 0 \<and> 0 < psyevx_iwork0 qx \<and> psyevx_info rx = 0)"
  shows "\<exists>ev A'. eigenpairs_symmetric K rm rv ce idx lim A = Inr (ev, A')
           \<and> state A' = (if ce then eigenvalues else unusable)
           \<and> (mpi_process_is_active (grid A) \<longrightarrow>
                values A' = (if \<not> use_indices \<and> \<not> use_values
                             then (if ce then psyev_Z r else psyev_A r)
                             else (if ce then psyevx_Z rx else psyevx_A rx))
                \<and> ev = (if \<not> use_indices \<and> \<not> use_values
                        then take (nat (n_rows A)) (psyev_ev r)
                        else take (nat (psyevx_m rx)) (psyevx_ev rx)))
           \<and> (\<not> mpi_process_is_active (grid A) \<longrightarrow> values A' = values A)"
proof (cases "mpi_process_is_active (grid A)")
  case True
  note k = ok[OF True]
  let ?E = "scratch\<lparr>property := property A\<rparr>"
  have e: "values ?E = values scratch" "submatrix_row ?E = submatrix_row scratch"
    "submatrix_column ?E = submatrix_column scratch" "descriptor ?E = descriptor scratch"
    by simp_all
  note s = sel[unfolded uv ui]
  show ?thesis
  proof (cases "\<not> use_indices \<and> \<not> use_values")
    case all: True
    then have i: "psyev_info q = 0" "psyev_info r = 0" using k by simp_all
    have a: "fst idx = invalid_unsigned_int \<or> snd idx = invalid_unsigned_int"
      "isnan K (fst lim) \<or> isnan K (snd lim)"
      using all ui uv by simp_all
    have c: "eigenpairs_symmetric_compute K ce idx lim ?E (n_rows A)
               (replicate (nat (n_rows A)) 0) A
             = Inr (A\<lparr>values := psyev_A r\<rparr>,
                    (if ce then ?E\<lparr>values := psyev_Z r\<rparr> else ?E), n_rows A, psyev_ev r)"
      by (rule eigenpairs_symmetric_compute_psyev[OF a _ _ i])
         (simp_all only: q r jobz z w e)
    show ?thesis
      using st pr sc True s all c
      by (cases ce)
         (simp_all add: eigenpairs_symmetric_def Let_def send_to_inactive_def)
  next
    case False
    then have some: "use_indices \<or> use_values" by blast
    from False have n: "(\<not> use_indices \<and> \<not> use_values) = False" by simp
    from False have i: "psyevx_info qx = 0" "0 < psyevx_iwork0 qx" "psyevx_info rx = 0"
      using k by simp_all
    have c: "eigenpairs_symmetric_compute K ce idx lim ?E (n_rows A)
               (replicate (nat (n_rows A)) 0) A
             = Inr (A\<lparr>values := psyevx_A rx\<rparr>,
                    (if ce then ?E\<lparr>values := psyevx_Z rx\<rparr> else ?E),
                    psyevx_m rx, psyevx_ev rx)"
      by (rule eigenpairs_symmetric_compute_psyevx
                 [OF uv ui some jobz rng vl vu il iu abstol _ _ i])
         (simp_all only: qx rx z w e)
    show ?thesis
      using st pr sc True s c
      by (cases ce)
         (simp_all add: eigenpairs_symmetric_def Let_def send_to_inactive_def n)
  qed
next
  case False
  then show ?thesis
    using st pr sc sel[unfolded uv ui]
    by (cases ce) (simp_all add: eigenpairs_symmetric_def Let_def send_to_inactive_def)
qed

theorem eigenpairs_symmetric_final_state_witness:
  "state symmetric_2x2 = matrix \<and> property symmetric_2x2 = symmetric
   \<and> mpi_process_is_active (grid symmetric_2x2)
   \<and> \<not> isl (eigenvectors_scratch True symmetric_2x2)
   \<and> \<not> isl (eigenvectors_scratch False symmetric_2x2)
   \<and> values (projr (eigenvectors_scratch True symmetric_2x2)) = [0, 0, 0, 0]
   \<and> (\<exists>ev A'. eigenpairs_symmetric workspace_eigen_kernels 0 [] True
                 (invalid_unsigned_int, invalid_unsigned_int) (- 1, - 1) symmetric_2x2
                 = Inr (ev, A')
               \<and> state A' = eigenvalues \<and> values A' = [1, 2, 3, 4] \<and> ev = [2, 5])
   \<and> (\<exists>ev A'. eigenpairs_symmetric workspace_eigen_kernels 0 [] False
                 (0, 0) (- 1, - 1) symmetric_2x2
                 = Inr (ev, A')
               \<and> state A' = unusable \<and> values A' = [7, 7, 7, 7] \<and> ev = [5])"
proof -
  let ?K = workspace_eigen_kernels
  let ?A = symmetric_2x2
  let ?all = "(invalid_unsigned_int, invalid_unsigned_int)"
  let ?S = "\<lambda>ce. projr (eigenvectors_scratch ce ?A)"
  let ?r = "\<lambda>(ev, A'). (ev, state A', values A')"
  have s: "state ?A = matrix" by code_simp
  have p: "property ?A = symmetric" by code_simp
  have a: "mpi_process_is_active (grid ?A)" by code_simp
  have sel: "\<not> (\<not> (isnan ?K (fst (- 1, - 1 :: int)) \<or> isnan ?K (snd (- 1 :: int, - 1 :: int)))
               \<and> \<not> (fst idx = invalid_unsigned_int \<or> snd idx = invalid_unsigned_int))"
    for idx :: "32 word \<times> 32 word"
    by (simp add: workspace_eigen_kernels_def)
  have e: "\<not> isl (eigenvectors_scratch True ?A)" "\<not> isl (eigenvectors_scratch False ?A)"
    by code_simp+
  have z: "values (?S True) = [0, 0, 0, 0]" by code_simp
  from e have e': "eigenvectors_scratch True ?A = Inr (?S True)"
    "eigenvectors_scratch False ?A = Inr (?S False)" by simp_all
  have "\<exists>ev A'. eigenpairs_symmetric ?K 0 [] True ?all (- 1, - 1) ?A = Inr (ev, A')
                 \<and> state A' = eigenvalues"
    by (rule exE[OF eigenpairs_symmetric_final_state[where K = ?K and A = ?A and ce = True
            and idx = ?all and lim = "(- 1, - 1)" and scratch = "?S True"
            and rm = 0 and rv = "[]",
            OF s p refl refl sel e'(1) refl refl refl refl refl refl refl refl refl
               refl refl refl refl]],
        code_simp, auto)
  moreover
  have "map_sum id ?r (eigenpairs_symmetric ?K 0 [] True ?all (- 1, - 1) ?A)
          = Inr ([2, 5], eigenvalues, [1, 2, 3, 4])"
    by code_simp
  ultimately
  have 1: "\<exists>ev A'. eigenpairs_symmetric ?K 0 [] True ?all (- 1, - 1) ?A = Inr (ev, A')
                 \<and> state A' = eigenvalues \<and> values A' = [1, 2, 3, 4] \<and> ev = [2, 5]"
    by auto
  have "\<exists>ev A'. eigenpairs_symmetric ?K 0 [] False (0, 0) (- 1, - 1) ?A = Inr (ev, A')
                 \<and> state A' = unusable"
    by (rule exE[OF eigenpairs_symmetric_final_state[where K = ?K and A = ?A and ce = False
            and idx = "(0, 0)" and lim = "(- 1, - 1)" and scratch = "?S False"
            and rm = 0 and rv = "[]",
            OF s p refl refl sel e'(2) refl refl refl refl refl refl refl refl refl
               refl refl refl refl]],
        code_simp, auto)
  moreover
  have "map_sum id ?r (eigenpairs_symmetric ?K 0 [] False (0, 0) (- 1, - 1) ?A)
          = Inr ([5], unusable, [7, 7, 7, 7])"
    by code_simp
  ultimately
  have 2: "\<exists>ev A'. eigenpairs_symmetric ?K 0 [] False (0, 0) (- 1, - 1) ?A = Inr (ev, A')
                 \<and> state A' = unusable \<and> values A' = [7, 7, 7, 7] \<and> ev = [5]"
    by auto
  from s p a e z 1 2 show ?thesis by blast
qed

subsection \<open>The matrix across all processes\<close>

lemma make_ProcessGrid_at:
  assumes "0 \<le> pr" "pr < R" "0 \<le> pc" "pc < C" "R * C \<le> int P"
  shows "nat (pr + pc * R) < P"
    and "make_ProcessGrid addr comm P (nat (pr + pc * R)) R C
         = \<lparr> address = addr, mpi_communicator = comm, n_mpi_processes = P,
             this_mpi_process = nat (pr + pc * R), blacs_context = int addr,
             n_process_rows = R, n_process_columns = C,
             this_process_row = pr, this_process_column = pc,
             mpi_process_is_active = True \<rparr>"
proof -
  have R: "0 < R" using assms by simp
  have "pc + 1 \<le> C" using assms by simp
  then have "(pc + 1) * R \<le> C * R" using R by (intro mult_right_mono) simp_all
  then have lt: "pr + pc * R < R * C" using assms by (simp add: algebra_simps)
  have nn: "0 \<le> pr + pc * R" using assms R by simp
  show "nat (pr + pc * R) < P" using lt nn assms(5) by simp
  have m: "(pr + pc * R) mod R = pr" using assms by simp
  have d: "(pr + pc * R) div R = pc" using assms R by simp
  show "make_ProcessGrid addr comm P (nat (pr + pc * R)) R C
         = \<lparr> address = addr, mpi_communicator = comm, n_mpi_processes = P,
             this_mpi_process = nat (pr + pc * R), blacs_context = int addr,
             n_process_rows = R, n_process_columns = C,
             this_process_row = pr, this_process_column = pc,
             mpi_process_is_active = True \<rparr>"
    using lt nn R m d by (simp add: make_ProcessGrid_def Let_def sdiv_nonneg smod_nonneg)
qed

lemma block_cyclic_rank:
  assumes "block_cyclic W nr nc mb nb addr comm P R C" "r < P"
  shows "ScaLAPACKMatrix_init nr nc (make_ProcessGrid addr comm P r R C) mb nb general
           = Inr ((W r)\<lparr>values := replicate (length (values (W r))) 0,
                          state := matrix, property := general\<rparr>)
         \<and> state (W r) = state (W 0) \<and> property (W r) = property (W 0)"
proof -
  from assms(1) have
    "\<forall>r \<in> set [0 ..< P].
       ScaLAPACKMatrix_init nr nc (make_ProcessGrid addr comm P r R C) mb nb general
         = Inr ((W r)\<lparr>values := replicate (length (values (W r))) 0,
                        state := matrix, property := general\<rparr>)
       \<and> state (W r) = state (W 0) \<and> property (W r) = property (W 0)"
    unfolding block_cyclic_def by (elim conjE)
  moreover have "r \<in> set [0 ..< P]" using assms(2) by simp
  ultimately show ?thesis by (rule bspec)
qed

lemma block_cyclic_replica:
  assumes "block_cyclic W nr nc mb nb addr comm P R C" "r < P"
  shows "ScaLAPACKMatrix_init nr nc (make_ProcessGrid addr comm P r R C) mb nb general
           = Inr ((W r)\<lparr>values := replicate (length (values (W r))) 0,
                          state := matrix, property := general\<rparr>)"
  using block_cyclic_rank[OF assms] by (rule conjunct1)

text \<open>What a block-cyclic world fixes in every replica.\<close>

lemma block_cyclic_fields:
  assumes "block_cyclic W nr nc mb nb addr comm P R C" "r < P"
  shows "0 < mb \<and> mb \<le> nr \<and> 0 < nb \<and> nb \<le> nc"
    and "grid (W r) = make_ProcessGrid addr comm P r R C"
    and "n_rows (W r) = nr \<and> n_columns (W r) = nc
         \<and> row_block_size (W r) = mb \<and> column_block_size (W r) = nb
         \<and> first_process_row (W r) = 0 \<and> first_process_column (W r) = 0
         \<and> submatrix_row (W r) = 1 \<and> submatrix_column (W r) = 1"
    and "state (W r) = state (W 0) \<and> property (W r) = property (W 0)"
proof -
  note M = block_cyclic_replica[OF assms]
  note f = ScaLAPACKMatrix_init_Inr(1,2)[OF M]
  show "0 < mb \<and> mb \<le> nr \<and> 0 < nb \<and> nb \<le> nc" by (rule f(1))
  show "grid (W r) = make_ProcessGrid addr comm P r R C"
    using f(2) by simp
  show "n_rows (W r) = nr \<and> n_columns (W r) = nc
         \<and> row_block_size (W r) = mb \<and> column_block_size (W r) = nb
         \<and> first_process_row (W r) = 0 \<and> first_process_column (W r) = 0
         \<and> submatrix_row (W r) = 1 \<and> submatrix_column (W r) = 1"
    using f(2) by simp
  show "state (W r) = state (W 0) \<and> property (W r) = property (W 0)"
    using block_cyclic_rank[OF assms] by (rule conjunct2)
qed

lemma block_cyclic_active_fields:
  assumes "block_cyclic W nr nc mb nb addr comm P R C"
    and "0 \<le> pr" "pr < R" "0 \<le> pc" "pc < C"
  defines "r \<equiv> nat (pr + pc * R)"
  shows "r < P"
    and "mpi_process_is_active (grid (W r))"
    and "this_process_row (grid (W r)) = pr \<and> this_process_column (grid (W r)) = pc
         \<and> n_process_rows (grid (W r)) = R \<and> n_process_columns (grid (W r)) = C"
    and "n_local_rows (W r) = numroc nr mb pr 0 R"
    and "n_local_columns (W r) = numroc nc nb pc 0 C"
    and "length (values (W r)) = nat (numroc nr mb pr 0 R * numroc nc nb pc 0 C)"
    and "descriptor (W r) ! 4 = mb \<and> descriptor (W r) ! 5 = nb
         \<and> descriptor (W r) ! 6 = 0 \<and> descriptor (W r) ! 7 = 0
         \<and> descriptor (W r) ! 8 = max 1 (numroc nr mb pr 0 R)"
proof -
  have RC: "1 \<le> R" "1 \<le> C" "R * C \<le> int P"
    using assms(1) unfolding block_cyclic_def by blast+
  note g1 = make_ProcessGrid_at(1)[OF assms(2-5) RC(3)]
  note g2 = make_ProcessGrid_at(2)[OF assms(2-5) RC(3), of addr comm]
  show rP: "r < P" unfolding r_def by (rule g1)
  note M = block_cyclic_replica[OF assms(1) rP]
  have gr: "grid (W r) = make_ProcessGrid addr comm P r R C"
    by (rule block_cyclic_fields(2)[OF assms(1) rP])
  have act: "mpi_process_is_active (make_ProcessGrid addr comm P r R C)"
    unfolding r_def g2 by simp
  show "mpi_process_is_active (grid (W r))" using act gr by simp
  have co: "this_process_row (make_ProcessGrid addr comm P r R C) = pr"
       "this_process_column (make_ProcessGrid addr comm P r R C) = pc"
       "n_process_rows (make_ProcessGrid addr comm P r R C) = R"
       "n_process_columns (make_ProcessGrid addr comm P r R C) = C"
    unfolding r_def g2 by simp_all
  show "this_process_row (grid (W r)) = pr \<and> this_process_column (grid (W r)) = pc
         \<and> n_process_rows (grid (W r)) = R \<and> n_process_columns (grid (W r)) = C"
    using co gr by simp
  note a = ScaLAPACKMatrix_init_Inr(3)[OF M act, unfolded co]
  note b = ScaLAPACKMatrix_init_Inr(1)[OF M]
  show "n_local_rows (W r) = numroc nr mb pr 0 R" using a by simp
  show "n_local_columns (W r) = numroc nc nb pc 0 C" using a by simp
  show "length (values (W r)) = nat (numroc nr mb pr 0 R * numroc nc nb pc 0 C)"
    using a by simp
  have d8: "descriptor (W r) ! 8 = max 1 (numroc nr mb pr 0 R)"
    using ScaLAPACKMatrix_init_Inr(4)[OF M act] a co RC by simp
  show "descriptor (W r) ! 4 = mb \<and> descriptor (W r) ! 5 = nb
         \<and> descriptor (W r) ! 6 = 0 \<and> descriptor (W r) ! 7 = 0
         \<and> descriptor (W r) ! 8 = max 1 (numroc nr mb pr 0 R)"
    using a b d8 RC by simp
qed

lemma global_entry_eq:
  assumes "row_block_size (W 0) = mb" "column_block_size (W 0) = nb"
    and "n_process_rows (grid (W 0)) = R" "n_process_columns (grid (W 0)) = C"
    and "first_process_row (W 0) = 0" "first_process_column (W 0) = 0"
  shows "global_entry W i j =
           values (W (nat (fst (owner_and_local (int i) mb R 0)
                           + fst (owner_and_local (int j) nb C 0) * R)))
             ! (nat (snd (owner_and_local (int j) nb C 0))
                  * nat (n_local_rows (W (nat (fst (owner_and_local (int i) mb R 0)
                                               + fst (owner_and_local (int j) nb C 0) * R))))
                + nat (snd (owner_and_local (int i) mb R 0)))"
  using assms by (simp add: global_entry_def Let_def split_beta)

lemma block_cyclic_rank0:
  assumes "block_cyclic W nr nc mb nb addr comm P R C"
  shows "0 < P"
    and "row_block_size (W 0) = mb" "column_block_size (W 0) = nb"
    and "n_process_rows (grid (W 0)) = R" "n_process_columns (grid (W 0)) = C"
    and "first_process_row (W 0) = 0" "first_process_column (W 0) = 0"
proof -
  have RC: "1 \<le> R" "1 \<le> C" "R * C \<le> int P"
    using assms unfolding block_cyclic_def by blast+
  have "1 * 1 \<le> R * C" using RC by (intro mult_mono) simp_all
  then show P: "0 < P" using RC by simp
  note f = block_cyclic_fields[OF assms P]
  show "row_block_size (W 0) = mb" "column_block_size (W 0) = nb"
    "first_process_row (W 0) = 0" "first_process_column (W 0) = 0"
    using f(3) by simp_all
  show "n_process_rows (grid (W 0)) = R" "n_process_columns (grid (W 0)) = C"
    using f(2) by (simp_all add: make_ProcessGrid_def Let_def)
qed

text \<open>
  Where the entry \<open>(i, j)\<close> of a block-cyclic world lives: on an active process, at a
  position inside its buffer, from which the local-to-global map leads back to \<open>(i, j)\<close>.
\<close>

lemma block_cyclic_entry:
  assumes wf: "block_cyclic W nr nc mb nb addr comm P R C"
    and ij: "int i < nr" "int j < nc"
  defines "pr \<equiv> fst (owner_and_local (int i) mb R 0)"
    and "li \<equiv> snd (owner_and_local (int i) mb R 0)"
    and "pc \<equiv> fst (owner_and_local (int j) nb C 0)"
    and "lj \<equiv> snd (owner_and_local (int j) nb C 0)"
  defines "r \<equiv> nat (pr + pc * R)"
  defines "k \<equiv> nat lj * nat (n_local_rows (W r)) + nat li"
  shows "r < P" "mpi_process_is_active (grid (W r))"
    and "k < length (values (W r))"
    and "int k mod (descriptor (W r) ! 8) = li" "int k div (descriptor (W r) ! 8) = lj"
    and "indxl2g (li + 1) mb (this_process_row (grid (W r))) 0 (n_process_rows (grid (W r)))
           = int i + 1"
    and "indxl2g (lj + 1) nb (this_process_column (grid (W r))) 0 (n_process_columns (grid (W r)))
           = int j + 1"
    and "global_entry W i j = values (W r) ! k"
proof -
  have RC: "1 \<le> R" "1 \<le> C" "R * C \<le> int P"
    using wf unfolding block_cyclic_def by blast+
  note z = block_cyclic_rank0[OF wf]
  note b = block_cyclic_fields(1)[OF wf z(1)]
  have b1: "1 \<le> mb" "1 \<le> nb" using b by simp_all
  have i0: "0 \<le> int i" and j0: "0 \<le> int j" by simp_all
  have pr: "0 \<le> pr" "pr < R" and li0: "0 \<le> li"
    unfolding pr_def li_def using owner_range[OF i0 b1(1) RC(1), of 0] RC by simp_all
  have pc: "0 \<le> pc" "pc < C" and lj0: "0 \<le> lj"
    unfolding pc_def lj_def using owner_range[OF j0 b1(2) RC(2), of 0] RC by simp_all
  have li: "li < numroc nr mb pr 0 R"
    unfolding li_def pr_def using numroc_lower[OF i0 ij(1) b1(1) RC(1), of 0] RC by simp
  have lj: "lj < numroc nc nb pc 0 C"
    unfolding lj_def pc_def using numroc_lower[OF j0 ij(2) b1(2) RC(2), of 0] RC by simp
  note a = block_cyclic_active_fields[OF wf pr pc, folded r_def]
  show "r < P" by (rule a(1))
  show "mpi_process_is_active (grid (W r))" by (rule a(2))
  define nlr where "nlr = numroc nr mb pr 0 R"
  define nlc where "nlc = numroc nc nb pc 0 C"
  have nl: "n_local_rows (W r) = nlr" "length (values (W r)) = nat (nlr * nlc)"
    "descriptor (W r) ! 8 = nlr"
    using a(4,6,7) li li0 by (simp_all add: nlr_def nlc_def)
  have lin: "li < nlr" "lj < nlc" using li lj by (simp_all add: nlr_def nlc_def)
  have ik: "int k = lj * nlr + li"
    using li0 lj0 lin by (simp add: k_def nl)
  have "(lj + 1) * nlr \<le> nlc * nlr"
    using lin li0 by (intro mult_right_mono) simp_all
  then have "lj * nlr + li < nlr * nlc"
    using lin by (simp add: algebra_simps)
  then have "int k < nlr * nlc" by (simp add: ik)
  then show "k < length (values (W r))" by (simp add: nl)
  show "int k mod (descriptor (W r) ! 8) = li"
    using li0 lin by (simp add: nl ik)
  show "int k div (descriptor (W r) ! 8) = lj"
    using li0 lin by (simp add: nl ik)
  have "local_to_global li mb pr 0 R = int i"
    using owner_and_local_inverse[OF i0 b1(1) RC(1), of 0] RC
    by (simp add: split_beta li_def pr_def)
  then show "indxl2g (li + 1) mb (this_process_row (grid (W r))) 0 (n_process_rows (grid (W r)))
           = int i + 1"
    using a(3) by (simp add: local_to_global_def)
  have "local_to_global lj nb pc 0 C = int j"
    using owner_and_local_inverse[OF j0 b1(2) RC(2), of 0] RC
    by (simp add: split_beta lj_def pc_def)
  then show "indxl2g (lj + 1) nb (this_process_column (grid (W r))) 0
               (n_process_columns (grid (W r))) = int j + 1"
    using a(3) by (simp add: local_to_global_def)
  show "global_entry W i j = values (W r) ! k"
    unfolding global_entry_eq[of W, OF z(2-7)] k_def r_def pr_def pc_def li_def lj_def ..
qed


subsection \<open>Redistribution between grids\<close>

lemma max_one_numroc: "\<not> (x :: int) < max 1 x \<or> max 1 x = 1"
  by (simp add: max_def)

lemma ScaLAPACKMatrix_init_on_grid:
  assumes "0 < mb" "mb \<le> nr" "0 < nb" "nb \<le> nc" "1 \<le> R" "1 \<le> C"
  shows "\<exists>M :: ('a::zero) ScaLAPACKMatrix.
           ScaLAPACKMatrix_init nr nc (make_ProcessGrid a c P r R C) mb nb pr = Inr M
           \<and> state M = matrix \<and> property M = pr
           \<and> values M = replicate (length (values M)) 0"
proof -
  have l: "\<not> max 1 x < max 1 (x :: int)" for x by simp
  have d: "snd (descinit nr nc mb nb 0 0 (make_ProcessGrid a c P r R C)
                 (max 1 (numroc nr mb (this_process_row (make_ProcessGrid a c P r R C)) 0
                           (n_process_rows (make_ProcessGrid a c P r R C))))) = 0"
    if "mpi_process_is_active (make_ProcessGrid a c P r R C)"
    using that assms
    by (simp add: descinit_def Cblacs_gridinfo_def Let_def make_ProcessGrid_def)
  show ?thesis
  proof (cases "mpi_process_is_active (make_ProcessGrid a c P r R C)")
    case True
    show ?thesis
      using assms True d[OF True]
      by (simp add: ScaLAPACKMatrix_init_def Let_def split_beta)
  next
    case False
    then show ?thesis
      using assms by (simp add: ScaLAPACKMatrix_init_def Let_def)
  qed
qed

lemma block_cyclicI:
  assumes "1 \<le> R" "1 \<le> C" "R * C \<le> int P"
    and "\<And>r. r < P \<Longrightarrow>
           ScaLAPACKMatrix_init nr nc (make_ProcessGrid addr comm P r R C) mb nb general
             = Inr ((W r)\<lparr>values := replicate (length (values (W r))) 0,
                            state := matrix, property := general\<rparr>)"
    and "\<And>r. r < P \<Longrightarrow> state (W r) = state (W 0)"
    and "\<And>r. r < P \<Longrightarrow> property (W r) = property (W 0)"
  shows "block_cyclic W nr nc mb nb addr comm P R C"
  unfolding block_cyclic_def
proof (intro conjI ballI)
  show "1 \<le> R" "1 \<le> C" "R * C \<le> int P" by fact+
next
  fix r assume "r \<in> set [0 ..< P]"
  then have r: "r < P" by simp
  show "ScaLAPACKMatrix_init nr nc (make_ProcessGrid addr comm P r R C) mb nb general
             = Inr ((W r)\<lparr>values := replicate (length (values (W r))) 0,
                            state := matrix, property := general\<rparr>)"
    by (rule assms(4)[OF r])
  show "state (W r) = state (W 0)" by (rule assms(5)[OF r])
  show "property (W r) = property (W 0)" by (rule assms(6)[OF r])
qed

lemma block_cyclic_dense:
  assumes "block_cyclic W nr nc mb nb addr comm P R C" "r < P"
    and "mpi_process_is_active (grid (W r))"
  shows "descriptor (W r) ! 0 = 1"
proof -
  note M = block_cyclic_replica[OF assms(1,2)]
  have g: "grid (W r) = make_ProcessGrid addr comm P r R C"
    by (rule block_cyclic_fields(2)[OF assms(1,2)])
  from ScaLAPACKMatrix_init_Inr(3)[OF M] assms(3) g show ?thesis by simp
qed

lemma block_cyclic_grid_bounds:
  assumes "block_cyclic W nr nc mb nb addr comm P R C"
  shows "1 \<le> R" "1 \<le> C" "R * C \<le> int P"
  using assms unfolding block_cyclic_def by blast+

text \<open>The copy of the whole matrix between two block-cyclic worlds on different grids.\<close>

lemma copy_to_world_Inr:
  assumes S: "block_cyclic S nr nc mbS nbS addrS comm P RS CS"
    and D: "block_cyclic D nr nc mbD nbD addrD comm P RD CD"
    and ne: "addrS \<noteq> addrD"
    and r: "r < P"
  shows "copy_to_world S D r =
           Inr ((D r)\<lparr>values :=
                  (if mpi_process_is_active (grid (D r)) \<and> 0 < length (values (D r))
                   then pgemr2d_on S (grid (D r)) nr nc
                          (if mpi_process_is_active (grid (S r)) \<and> 0 < length (values (S r))
                           then values (S r) else [])
                          1 1 (descriptor (S r)) (values (D r)) 1 1 (descriptor (D r))
                          (comm, comm)
                   else values (D r)),
                 state := state (S 0), property := property (S 0)\<rparr>)"
proof -
  note fs = block_cyclic_fields(2,3,4)[OF S r]
  note fd = block_cyclic_fields(2,3,4)[OF D r]
  have a: "address (grid (S r)) \<noteq> address (grid (D r))"
    using ne by (simp add: fs(1) fd(1) make_ProcessGrid_def Let_def)
  have c: "mpi_communicator (grid (S r)) = comm" "mpi_communicator (grid (D r)) = comm"
    by (simp_all add: fs(1) fd(1) make_ProcessGrid_def Let_def)
  have ds: "mpi_process_is_active (grid (S r)) \<Longrightarrow> descriptor (S r) ! 0 = 1"
    by (rule block_cyclic_dense[OF S r])
  have dd: "mpi_process_is_active (grid (D r)) \<Longrightarrow> descriptor (D r) ! 0 = 1"
    by (rule block_cyclic_dense[OF D r])
  show ?thesis
    using a c ds dd fs(2,3) fd(2)
    by (auto simp: copy_to_world_def copy_to_def Let_def)
qed

lemma pgemr2d_on_length:
  "length (pgemr2d_on W g m n A ia ja dA B ib jb dB ctxt) = length B"
  by (simp add: pgemr2d_on_def)

lemma copy_to_world_block_cyclic:
  assumes S: "block_cyclic S nr nc mbS nbS addrS comm P RS CS"
    and D: "block_cyclic D nr nc mbD nbD addrD comm P RD CD"
    and ne: "addrS \<noteq> addrD"
  shows "block_cyclic (\<lambda>r. projr (copy_to_world S D r)) nr nc mbD nbD addrD comm P RD CD"
proof (rule block_cyclicI)
  show "1 \<le> RD" "1 \<le> CD" "RD * CD \<le> int P"
    by (rule block_cyclic_grid_bounds[OF D])+
next
  fix r assume r: "r < P"
  show "ScaLAPACKMatrix_init nr nc (make_ProcessGrid addrD comm P r RD CD) mbD nbD general
          = Inr ((projr (copy_to_world S D r))
                   \<lparr>values := replicate (length (values (projr (copy_to_world S D r)))) 0,
                    state := matrix, property := general\<rparr>)"
    unfolding block_cyclic_replica[OF D r] copy_to_world_Inr[OF S D ne r]
    by (simp add: pgemr2d_on_length)
next
  have P: "0 < P" by (rule block_cyclic_rank0(1)[OF D])
  fix r assume r: "r < P"
  show "state (projr (copy_to_world S D r)) = state (projr (copy_to_world S D 0))"
    "property (projr (copy_to_world S D r)) = property (projr (copy_to_world S D 0))"
    by (simp_all add: copy_to_world_Inr[OF S D ne r] copy_to_world_Inr[OF S D ne P])
qed

lemma copy_to_world_entry:
  assumes S: "block_cyclic S nr nc mbS nbS addrS comm P RS CS"
    and D: "block_cyclic D nr nc mbD nbD addrD comm P RD CD"
    and ne: "addrS \<noteq> addrD"
    and ij: "int i < nr" "int j < nc"
  shows "global_entry (\<lambda>r. projr (copy_to_world S D r)) i j = global_entry S i j"
proof -
  let ?res = "\<lambda>r. projr (copy_to_world S D r)"
  define pr where "pr = fst (owner_and_local (int i) mbD RD 0)"
  define li where "li = snd (owner_and_local (int i) mbD RD 0)"
  define pc where "pc = fst (owner_and_local (int j) nbD CD 0)"
  define lj where "lj = snd (owner_and_local (int j) nbD CD 0)"
  define r where "r = nat (pr + pc * RD)"
  define k where "k = nat lj * nat (n_local_rows (D r)) + nat li"
  note e = block_cyclic_entry[OF D ij, folded pr_def li_def pc_def lj_def,
      folded r_def, folded k_def]
  note z = block_cyclic_rank0[OF D]
  note RC = block_cyclic_grid_bounds[OF D]
  note b = block_cyclic_fields(1)[OF D z(1)]
  have b1: "1 \<le> mbD" "1 \<le> nbD" using b by simp_all
  have i0: "0 \<le> int i" and j0: "0 \<le> int j" by simp_all
  have pr: "0 \<le> pr" "pr < RD"
    unfolding pr_def using owner_range[OF i0 b1(1) RC(1), of 0] RC by simp_all
  have pc: "0 \<le> pc" "pc < CD"
    unfolding pc_def using owner_range[OF j0 b1(2) RC(2), of 0] RC by simp_all
  note a = block_cyclic_active_fields(7)[OF D pr pc, folded r_def]
  have d4: "descriptor (D r) ! 4 = mbD" "descriptor (D r) ! 5 = nbD"
    "descriptor (D r) ! 6 = 0" "descriptor (D r) ! 7 = 0"
    using a by simp_all
  have len: "0 < length (values (D r))" using e(3) by (cases "values (D r)") simp_all
  have m0: "row_block_size (?res 0) = mbD" "column_block_size (?res 0) = nbD"
    "n_process_rows (grid (?res 0)) = RD" "n_process_columns (grid (?res 0)) = CD"
    "first_process_row (?res 0) = 0" "first_process_column (?res 0) = 0"
    using z by (simp_all add: copy_to_world_Inr[OF S D ne z(1)])
  have "global_entry ?res i j = values (?res r) ! (nat lj * nat (n_local_rows (?res r)) + nat li)"
    unfolding global_entry_eq[of ?res, OF m0] r_def pr_def pc_def li_def lj_def ..
  also have "\<dots> = pgemr2d_on S (grid (D r)) nr nc
                          (if mpi_process_is_active (grid (S r)) \<and> 0 < length (values (S r))
                           then values (S r) else [])
                          1 1 (descriptor (S r)) (values (D r)) 1 1 (descriptor (D r))
                          (comm, comm) ! k"
    using e(2) len by (simp add: copy_to_world_Inr[OF S D ne e(1)] k_def)
  also have "\<dots> = global_entry S i j"
    unfolding pgemr2d_on_def
    using e(3) ij
    by (simp add: Let_def d4 e(4,5,6,7))
  finally show ?thesis .
qed


subsection \<open>Addition\<close>



subsection \<open>Checkpoint I/O\<close>

lemma State_of_int_inverse: "State_of_int (State_to_int s) = s"
  by (cases s) (simp_all add: State_of_int_def State_to_int_def)

lemma Property_of_int_inverse: "Property_of_int (Property_to_int p) = p"
  by (cases p) (simp_all add: Property_of_int_def Property_to_int_def)

text \<open>
  On a 1x1 grid with one block the buffer of the process \<open>0\<close> lists the matrix column
  by column.
\<close>

lemma one_grid_entry:
  assumes T: "block_cyclic T nr nc nr nc a comm P 1 1"
    and ij: "int i < nr" "int j < nc"
  shows "global_entry T i j = values (T 0) ! (j * nat nr + i)"
    and "length (values (T 0)) = nat (nr * nc)"
proof -
  have i0: "0 \<le> int i" and j0: "0 \<le> int j" by simp_all
  have nr1: "1 \<le> nr" and nc1: "1 \<le> nc" using ij by simp_all
  have oi: "owner_and_local (int i) nr 1 0 = (0, int i)"
    using owner_eq[OF i0 nr1, of 1 0] local_eq[OF i0 nr1, of 1 0] ij
    by (simp add: prod_eq_iff)
  have oj: "owner_and_local (int j) nc 1 0 = (0, int j)"
    using owner_eq[OF j0 nc1, of 1 0] local_eq[OF j0 nc1, of 1 0] ij
    by (simp add: prod_eq_iff)
  have n1: "numroc nr nr 0 0 1 = nr" using nr1 by (simp add: numroc_eq)
  have n2: "numroc nc nc 0 0 1 = nc" using nc1 by (simp add: numroc_eq)
  note a = block_cyclic_active_fields(4,6)[OF T, of 0 0]
  note e = block_cyclic_entry(8)[OF T ij]
  show "global_entry T i j = values (T 0) ! (j * nat nr + i)"
    using e a(1) by (simp add: oi oj n1)
  show "length (values (T 0)) = nat (nr * nc)"
    using a(2) by (simp add: n1 n2)
qed

text \<open>The temporary matrices of the serial path form a block-cyclic world on the 1x1 grid.\<close>

lemma one_grid_tmp_world:
  assumes W: "block_cyclic W nr nc mb nb addr comm P R C" and r: "r < P"
  shows "one_grid_tmp (W r)
           = ScaLAPACKMatrix_init nr nc (make_ProcessGrid (Suc addr) comm P r 1 1) nr nc general"
proof -
  note f = block_cyclic_fields(2,3)[OF W r]
  show ?thesis
    by (simp add: one_grid_tmp_def Let_def f make_ProcessGrid_def)
qed

lemma one_grid_tmp_Inr:
  assumes W: "block_cyclic W nr nc mb nb addr comm P R C" and r: "r < P"
  shows "one_grid_tmp (W r) = Inr (projr (one_grid_tmp (W r)))"
    and "state (projr (one_grid_tmp (W r))) = matrix"
    and "property (projr (one_grid_tmp (W r))) = general"
    and "values (projr (one_grid_tmp (W r)))
           = replicate (length (values (projr (one_grid_tmp (W r))))) 0"
proof -
  note b = block_cyclic_fields(1)[OF W r]
  have "\<exists>M :: 'a ScaLAPACKMatrix.
          ScaLAPACKMatrix_init nr nc (make_ProcessGrid (Suc addr) comm P r 1 1) nr nc general = Inr M
          \<and> state M = matrix \<and> property M = general
          \<and> values M = replicate (length (values M)) 0"
    using b by (intro ScaLAPACKMatrix_init_on_grid) simp_all
  then obtain M :: "'a ScaLAPACKMatrix" where
    M: "one_grid_tmp (W r) = Inr M" "state M = matrix" "property M = general"
       "values M = replicate (length (values M)) 0"
    unfolding one_grid_tmp_world[OF W r] by blast
  show "one_grid_tmp (W r) = Inr (projr (one_grid_tmp (W r)))"
    "state (projr (one_grid_tmp (W r))) = matrix"
    "property (projr (one_grid_tmp (W r))) = general"
    "values (projr (one_grid_tmp (W r)))
           = replicate (length (values (projr (one_grid_tmp (W r))))) 0"
    using M by simp_all
qed

lemma one_grid_tmp_block_cyclic:
  assumes W: "block_cyclic W nr nc mb nb addr comm P R C"
  shows "block_cyclic (\<lambda>r. projr (one_grid_tmp (W r))) nr nc nr nc (Suc addr) comm P 1 1"
proof (rule block_cyclicI)
  have "0 < P" by (rule block_cyclic_rank0(1)[OF W])
  then show "(1::int) \<le> 1" "(1::int) \<le> 1" "1 * 1 \<le> int P" by simp_all
next
  fix r assume r: "r < P"
  note t = one_grid_tmp_Inr[OF W r]
  have "(projr (one_grid_tmp (W r)))
          \<lparr>values := replicate (length (values (projr (one_grid_tmp (W r))))) 0,
           state := matrix, property := general\<rparr> = projr (one_grid_tmp (W r))"
    using t(2,3,4) by (metis ScaLAPACKMatrix.surjective ScaLAPACKMatrix.update_convs(1,2,3))
  then show "ScaLAPACKMatrix_init nr nc (make_ProcessGrid (Suc addr) comm P r 1 1) nr nc general
          = Inr ((projr (one_grid_tmp (W r)))
                   \<lparr>values := replicate (length (values (projr (one_grid_tmp (W r))))) 0,
                    state := matrix, property := general\<rparr>)"
    using t(1) by (simp add: one_grid_tmp_world[OF W r])
next
  have P: "0 < P" by (rule block_cyclic_rank0(1)[OF W])
  fix r assume r: "r < P"
  show "state (projr (one_grid_tmp (W r))) = state (projr (one_grid_tmp (W 0)))"
    by (simp add: one_grid_tmp_Inr(2)[OF W r] one_grid_tmp_Inr(2)[OF W P])
  show "property (projr (one_grid_tmp (W r))) = property (projr (one_grid_tmp (W 0)))"
    by (simp add: one_grid_tmp_Inr(3)[OF W r] one_grid_tmp_Inr(3)[OF W P])
qed

text \<open>What the serial save writes: the process \<open>0\<close> writes the gathered matrix.\<close>

lemma save_serial_world_archive:
  assumes W: "block_cyclic W nr nc mb nb addr comm P R C"
  shows "save_serial_world chunk_size W 0 =
           Inr (Some \<lparr> matrix_dims = (nat nc, nat nr),
                        matrix_chunk_dims = (unat (snd chunk_size), unat (fst chunk_size)),
                        matrix_data =
                          values (projr (copy_to_world W (\<lambda>r. projr (one_grid_tmp (W r))) 0)),
                        state_dataset = Some (state (W 0)),
                        property_dataset = Some (property (W 0)) \<rparr>)"
proof -
  let ?T = "\<lambda>r. projr (one_grid_tmp (W r))"
  have P: "0 < P" by (rule block_cyclic_rank0(1)[OF W])
  note T = one_grid_tmp_block_cyclic[OF W]
  note t = one_grid_tmp_Inr(1)[OF W P]
  note f = block_cyclic_fields(3)[OF W P]
  have ne: "addr \<noteq> Suc addr" by simp
  note c = copy_to_world_Inr[OF W T ne P]
  have c': "copy_to (pgemr2d_on W (grid (?T 0))) 0 (W 0) (?T 0) = copy_to_world W ?T 0"
    by (simp add: copy_to_world_def)
  have act: "mpi_process_is_active (grid (?T 0))"
    by (rule block_cyclic_active_fields(2)[OF T, of 0 0, simplified])
  have "save_serial_world chunk_size W 0 =
          (case copy_to (pgemr2d_on W (grid (?T 0))) 0 (W 0) (?T 0) of
             Inl e \<Rightarrow> Inl e
           | Inr tmp \<Rightarrow>
               if mpi_process_is_active (grid tmp) then
                 (if (0::int) < 0 then Inl ExcIO
                  else Inr (Some \<lparr> matrix_dims = (nat (n_columns (W 0)), nat (n_rows (W 0))),
                                   matrix_chunk_dims = (unat (snd chunk_size), unat (fst chunk_size)),
                                   matrix_data = values tmp,
                                   state_dataset = Some (state (W 0)),
                                   property_dataset = Some (property (W 0)) \<rparr>))
               else Inr None)"
    unfolding save_serial_world_def save_serial_def by (subst t) simp
  also have "\<dots> = Inr (Some \<lparr> matrix_dims = (nat nc, nat nr),
                        matrix_chunk_dims = (unat (snd chunk_size), unat (fst chunk_size)),
                        matrix_data = values (projr (copy_to_world W ?T 0)),
                        state_dataset = Some (state (W 0)),
                        property_dataset = Some (property (W 0)) \<rparr>)"
    unfolding c' using act f by (simp add: c)
  finally show ?thesis .
qed

text \<open>What the serial load reads into its temporary matrices.\<close>

lemma load_serial_tmp_world_rank:
  assumes W: "block_cyclic W nr nc mb nb addr comm P R C" and r: "r < P"
    and dims: "matrix_dims archive = (nat nc, nat nr)"
    and st: "state_dataset archive = Some s" and pt: "property_dataset archive = Some p"
  shows "load_serial_tmp 0 (State_to_int s) (Property_to_int p) archive (W r)
           = Inr ((projr (one_grid_tmp (W r)))
                    \<lparr>values := (if mpi_process_is_active (grid (projr (one_grid_tmp (W r))))
                                 then matrix_data archive
                                 else values (projr (one_grid_tmp (W r)))),
                     state := s, property := p\<rparr>)"
proof -
  note t = one_grid_tmp_Inr(1)[OF W r]
  note f = block_cyclic_fields(1,3)[OF W r]
  have nn: "0 \<le> nc" "0 \<le> nr" using f(1) by simp_all
  show ?thesis
    unfolding load_serial_tmp_def
    using f(2)
    by (subst t)
       (simp add: dims nn st pt Let_def send_to_inactive_def
          State_of_int_inverse Property_of_int_inverse)
qed

lemma load_serial_tmp_world_block_cyclic:
  assumes W: "block_cyclic W nr nc mb nb addr comm P R C"
    and dims: "matrix_dims archive = (nat nc, nat nr)"
    and len: "length (matrix_data archive) = nat (nr * nc)"
    and st: "state_dataset archive = Some s" and pt: "property_dataset archive = Some p"
  shows "block_cyclic (load_serial_tmp_world archive W) nr nc nr nc (Suc addr) comm P 1 1"
    and "values (load_serial_tmp_world archive W 0) = matrix_data archive"
    and "state (load_serial_tmp_world archive W 0) = s"
    and "property (load_serial_tmp_world archive W 0) = p"
proof -
  let ?T = "\<lambda>r. projr (one_grid_tmp (W r))"
  let ?L = "load_serial_tmp_world archive W"
  note T = one_grid_tmp_block_cyclic[OF W]
  have P: "0 < P" by (rule block_cyclic_rank0(1)[OF W])
  have L: "?L r = (?T r)\<lparr>values := (if r = 0 then matrix_data archive else values (?T r)),
                         state := s, property := p\<rparr>" if "r < P" for r
  proof -
    have g: "grid (?T r) = make_ProcessGrid (Suc addr) comm P r 1 1"
      by (rule block_cyclic_fields(2)[OF T that])
    have act: "mpi_process_is_active (grid (?T r)) = (r = 0)"
      by (auto simp: g make_ProcessGrid_def Let_def)
    show ?thesis
      unfolding load_serial_tmp_world_def st pt
      using load_serial_tmp_world_rank[OF W that dims st pt] act by simp
  qed
  show "values (?L 0) = matrix_data archive" "state (?L 0) = s" "property (?L 0) = p"
    by (simp_all add: L[OF P])
  have nr1: "1 \<le> nr" "1 \<le> nc" using block_cyclic_fields(1)[OF W P] by simp_all
  have n1: "numroc nr nr 0 0 1 = nr" using nr1 by (simp add: numroc_eq)
  have n2: "numroc nc nc 0 0 1 = nc" using nr1 by (simp add: numroc_eq)
  have l0: "length (values (?T 0)) = nat (nr * nc)"
    using block_cyclic_active_fields(6)[OF T, of 0 0] by (simp add: n1 n2)
  show "block_cyclic ?L nr nc nr nc (Suc addr) comm P 1 1"
  proof (rule block_cyclicI)
    show "(1::int) \<le> 1" "(1::int) \<le> 1" "1 * 1 \<le> int P" using P by simp_all
  next
    fix r assume r: "r < P"
    show "ScaLAPACKMatrix_init nr nc (make_ProcessGrid (Suc addr) comm P r 1 1) nr nc general
            = Inr ((?L r)\<lparr>values := replicate (length (values (?L r))) 0,
                           state := matrix, property := general\<rparr>)"
      unfolding block_cyclic_replica[OF T r] using len l0 by (simp add: L[OF r])
    show "state (?L r) = state (?L 0)" "property (?L r) = property (?L 0)"
      by (simp_all add: L[OF r] L[OF P])
  qed
qed

lemma load_serial_world_copy:
  assumes W: "block_cyclic W nr nc mb nb addr comm P R C" and r: "r < P"
    and dims: "matrix_dims archive = (nat nc, nat nr)"
    and st: "state_dataset archive = Some s" and pt: "property_dataset archive = Some p"
  shows "load_serial_world archive W r = copy_to_world (load_serial_tmp_world archive W) W r"
proof -
  note t = load_serial_tmp_world_rank[OF W r dims st pt]
  have "load_serial_tmp_world archive W r
          = projr (load_serial_tmp 0 (State_to_int s) (Property_to_int p) archive (W r))"
    by (simp add: load_serial_tmp_world_def st pt)
  then have "load_serial_tmp 0 (State_to_int s) (Property_to_int p) archive (W r)
          = Inr (load_serial_tmp_world archive W r)"
    by (simp add: t)
  then show ?thesis
    by (simp add: load_serial_world_def load_serial_def copy_to_world_def st pt)
qed

text \<open>
  In the build without parallel HDF5, on one communicator, a save of a block-cyclic
  matrix followed by a load into a block-cyclic matrix of the same shape, on any grid
  and with any block sizes, returns on every process and restores the shape, every
  entry, the state and the property.
\<close>

lemma serial_save_load:
  assumes W: "block_cyclic W nr nc mb nb addr comm P R C"
    and W': "block_cyclic W' nr nc mb' nb' addr' comm P R' C'"
    and sv: "save_serial_world chunk_size W 0 = Inr (Some archive)"
  shows "\<forall>r<P. \<exists>A'. load_serial_world archive W' r = Inr A'
              \<and> n_rows A' = nr \<and> n_columns A' = nc
              \<and> state A' = state (W 0) \<and> property A' = property (W 0)"
    and "int i < nr \<Longrightarrow> int j < nc \<Longrightarrow>
           global_entry (\<lambda>r. projr (load_serial_world archive W' r)) i j = global_entry W i j"
proof -
  let ?T = "\<lambda>r. projr (one_grid_tmp (W r))"
  let ?G = "\<lambda>r. projr (copy_to_world W ?T r)"
  let ?L = "load_serial_tmp_world archive W'"
  have P: "0 < P" by (rule block_cyclic_rank0(1)[OF W])
  note T = one_grid_tmp_block_cyclic[OF W]
  have ne: "addr \<noteq> Suc addr" "Suc addr' \<noteq> addr'" by simp_all
  note G = copy_to_world_block_cyclic[OF W T ne(1)]
  have ar: "archive = \<lparr> matrix_dims = (nat nc, nat nr),
                        matrix_chunk_dims = (unat (snd chunk_size), unat (fst chunk_size)),
                        matrix_data = values (?G 0),
                        state_dataset = Some (state (W 0)),
                        property_dataset = Some (property (W 0)) \<rparr>"
    using sv unfolding save_serial_world_archive[OF W] by simp
  have dims: "matrix_dims archive = (nat nc, nat nr)"
    and data: "matrix_data archive = values (?G 0)"
    and st: "state_dataset archive = Some (state (W 0))"
    and pt: "property_dataset archive = Some (property (W 0))"
    by (simp_all add: ar)
  have nr1: "1 \<le> nr" "1 \<le> nc" using block_cyclic_fields(1)[OF W P] by simp_all
  have n1: "numroc nr nr 0 0 1 = nr" using nr1 by (simp add: numroc_eq)
  have n2: "numroc nc nc 0 0 1 = nc" using nr1 by (simp add: numroc_eq)
  have len: "length (matrix_data archive) = nat (nr * nc)"
    using block_cyclic_active_fields(6)[OF G, of 0 0] by (simp add: data n1 n2)
  note L = load_serial_tmp_world_block_cyclic[OF W' dims len st pt]
  have ld: "load_serial_world archive W' r = copy_to_world ?L W' r" if "r < P" for r
    by (rule load_serial_world_copy[OF W' that dims st pt])
  show "\<forall>r<P. \<exists>A'. load_serial_world archive W' r = Inr A'
              \<and> n_rows A' = nr \<and> n_columns A' = nc
              \<and> state A' = state (W 0) \<and> property A' = property (W 0)"
  proof (intro allI impI)
    fix r assume r: "r < P"
    note f = block_cyclic_fields(3)[OF W' r]
    show "\<exists>A'. load_serial_world archive W' r = Inr A'
              \<and> n_rows A' = nr \<and> n_columns A' = nc
              \<and> state A' = state (W 0) \<and> property A' = property (W 0)"
      unfolding ld[OF r] copy_to_world_Inr[OF L(1) W' ne(2) r]
      using f L(3,4) by simp
  qed
  assume ij: "int i < nr" "int j < nc"
  have "global_entry (\<lambda>r. projr (load_serial_world archive W' r)) i j
          = global_entry (\<lambda>r. projr (copy_to_world ?L W' r)) i j"
  proof -
    have "global_entry V i j = global_entry V' i j"
      if "\<And>r. r < P \<Longrightarrow> V r = V' r" "block_cyclic V' nr nc mb' nb' addr' comm P R' C'"
      for V V' :: "'a world"
    proof -
      note z = block_cyclic_rank0[OF that(2)]
      note e = block_cyclic_entry(1)[OF that(2) ij]
      have m: "row_block_size (V 0) = mb'" "column_block_size (V 0) = nb'"
        "n_process_rows (grid (V 0)) = R'" "n_process_columns (grid (V 0)) = C'"
        "first_process_row (V 0) = 0" "first_process_column (V 0) = 0"
        using z by (simp_all add: that(1)[OF z(1)])
      show ?thesis
        unfolding global_entry_eq[of V, OF m] global_entry_eq[of V', OF z(2-7)]
        by (simp add: that(1)[OF e])
    qed
    note h = this
    have eqr: "projr (load_serial_world archive W' r) = projr (copy_to_world ?L W' r)"
      if "r < P" for r
      by (simp only: ld[OF that])
    show ?thesis
      by (rule h[OF eqr copy_to_world_block_cyclic[OF L(1) W' ne(2)]])
  qed
  also have "\<dots> = global_entry ?L i j"
    by (rule copy_to_world_entry[OF L(1) W' ne(2) ij])
  also have "\<dots> = values (?L 0) ! (j * nat nr + i)"
    by (rule one_grid_entry(1)[OF L(1) ij])
  also have "\<dots> = values (?G 0) ! (j * nat nr + i)"
    by (simp add: L(2) data)
  also have "\<dots> = global_entry ?G i j"
    by (rule one_grid_entry(1)[OF G ij, symmetric])
  also have "\<dots> = global_entry W i j"
    by (rule copy_to_world_entry[OF W T ne(1) ij])
  finally show "global_entry (\<lambda>r. projr (load_serial_world archive W' r)) i j
                  = global_entry W i j" .
qed


text \<open>
  C5 fails on the code. In the parallel path a matrix of seven columns on a communicator
  of three processes is given the column block size \<open>7 div 3 = 2\<close> on the grid of one
  row and three columns; the four blocks are dealt cyclically, and the process \<open>0\<close>
  holds the columns \<open>0\<close>, \<open>1\<close> and \<open>6\<close>, which are no contiguous band.
\<close>

theorem column_grid_tmp_not_contiguous:
  "map_sum id
     (\<lambda>tmp. (n_process_rows (grid tmp), n_process_columns (grid tmp), column_block_size tmp,
             map (\<lambda>j. projr (global_column tmp j)) [0 ..< nat (n_local_columns tmp)]))
     (column_grid_tmp (wide_1x7 0)) = Inr (1, 3, 2, [0, 1, 6])"
  by code_simp

text \<open>
  C1 fails on the code. In the build with parallel HDF5, \<^verbatim>\<open>save\<close> of a matrix of two
  columns on a communicator of three processes computes the column block size
  \<open>2 div 3 = 0\<close> for its temporary matrix, whose constructor refuses it: nothing is
  saved, so nothing can be restored.
\<close>

theorem save_parallel_narrow_matrix:
  "n_columns (narrow_2x2 0) = 2 \<and> n_mpi_processes (grid (narrow_2x2 0)) = 3
   \<and> save parallel_build idle_pgemr2d 0 0 []
        (invalid_unsigned_int, invalid_unsigned_int) (narrow_2x2 0)
      = Inl (ExcMessage ''Column block size has to be positive.'')"
  by code_simp

end
